theory Spec2Isabelle
  imports Complex_Main "HOL-Library.Word"
begin

section \<open>The vibration sensor firmware: data model\<close>

text \<open>
  The repository holds two Arduino sketches. The main one,
  \<^verbatim>\<open>Arduino_BLE_wash_sense.ino\<close>, calibrates the accelerometer at start-up and then
  streams offset-corrected samples at a fixed rate from a loop that never blocks for
  long. The older one (\<^verbatim>\<open>part_000\<close>) has no calibration and streams from a blocking
  loop. Both are embedded here; the functions of the older sketch carry the suffix
  \<open>_part_000\<close>.

  Every call into a library (Serial, GPIO, IMU, BLE, timing) is an event; a run of a
  function is the list of events it performs, in order. What a library call returns is
  an input of the model. \<open>Serial_print\<close> and \<open>Serial_println\<close> are the overloads that take
  a string literal, \<open>Serial_println_String\<close> the one that takes a \<^verbatim>\<open>String\<close> object (the
  address of the central). \<^verbatim>\<open>unsigned long\<close> is 32 bits wide on the target (Arduino Nano
  33 BLE) and is a \<^typ>\<open>32 word\<close>; \<^verbatim>\<open>float\<close> is the IEEE 754 binary32 format, modelled
  below.
\<close>

subsection \<open>Single-precision floating point\<close>

text \<open>
  The arithmetic of \<^verbatim>\<open>float\<close> is not part of the sketches: it is that of the target's
  floating-point unit, IEEE 754 binary32 with rounding to nearest, ties to even, and
  gradual underflow. A value is a finite real number (one that the format represents),
  an infinity or NaN. Two things are not modelled: the sign of zero, and which NaN an
  operation returns. Each operation rounds its exact result once.

  \<open>pow2 e\<close> is \<open>2\<close> to the power \<open>e\<close>. A finite non-zero \<open>x\<close> with
  \<open>2^e \<le> |x| < 2^(e+1)\<close> lies between multiples of \<open>ulp32 x = 2^(max e (-126) - 23)\<close>;
  \<open>round32\<close> takes the nearest multiple, the even one on a tie, and overflows to an
  infinity when that multiple reaches \<open>2^128\<close>.
\<close>

datatype float32 = Finite real | PInf | MInf | NaN

definition pow2 :: "int \<Rightarrow> real" where
  "pow2 e = (if 0 \<le> e then 2 ^ nat e else 1 / 2 ^ nat (- e))"

definition round_even :: "real \<Rightarrow> int" where
  "round_even r =
     (let f = \<lfloor>r\<rfloor> in
      if r - of_int f < 1 / 2 then f
      else if 1 / 2 < r - of_int f then f + 1
      else if even f then f else f + 1)"

definition ulp32 :: "real \<Rightarrow> real" where
  "ulp32 x = pow2 (max \<lfloor>log 2 \<bar>x\<bar>\<rfloor> (- 126) - 23)"

definition round32 :: "real \<Rightarrow> float32" where
  "round32 x =
     (if x = 0 then Finite 0
      else (let r = of_int (round_even (x / ulp32 x)) * ulp32 x in
            if 2 ^ 128 \<le> r then PInf
            else if r \<le> - (2 ^ 128) then MInf
            else Finite r))"

fun is_finite :: "float32 \<Rightarrow> bool" where
  "is_finite (Finite a) = True"
| "is_finite a = False"

fun f32_neg :: "float32 \<Rightarrow> float32" where
  "f32_neg (Finite a) = Finite (- a)"
| "f32_neg PInf = MInf"
| "f32_neg MInf = PInf"
| "f32_neg NaN = NaN"

fun f32_add :: "float32 \<Rightarrow> float32 \<Rightarrow> float32" where
  "f32_add (Finite a) (Finite b) = round32 (a + b)"
| "f32_add NaN b = NaN"
| "f32_add a NaN = NaN"
| "f32_add PInf MInf = NaN"
| "f32_add MInf PInf = NaN"
| "f32_add PInf b = PInf"
| "f32_add a PInf = PInf"
| "f32_add MInf b = MInf"
| "f32_add a MInf = MInf"

definition f32_sub :: "float32 \<Rightarrow> float32 \<Rightarrow> float32" where
  "f32_sub a b = f32_add a (f32_neg b)"

fun f32_mul :: "float32 \<Rightarrow> float32 \<Rightarrow> float32" where
  "f32_mul (Finite a) (Finite b) = round32 (a * b)"
| "f32_mul NaN b = NaN"
| "f32_mul a NaN = NaN"
| "f32_mul (Finite a) PInf = (if a = 0 then NaN else if 0 < a then PInf else MInf)"
| "f32_mul (Finite a) MInf = (if a = 0 then NaN else if 0 < a then MInf else PInf)"
| "f32_mul PInf (Finite b) = (if b = 0 then NaN else if 0 < b then PInf else MInf)"
| "f32_mul MInf (Finite b) = (if b = 0 then NaN else if 0 < b then MInf else PInf)"
| "f32_mul PInf PInf = PInf"
| "f32_mul MInf MInf = PInf"
| "f32_mul PInf MInf = MInf"
| "f32_mul MInf PInf = MInf"

text \<open>
  Division. With the sign of zero not modelled, a zero divisor counts as positive; the
  sketches divide by the constant \<open>CALIBRATION_SAMPLES\<close> only.
\<close>

fun f32_div :: "float32 \<Rightarrow> float32 \<Rightarrow> float32" where
  "f32_div (Finite a) (Finite b) =
     (if b = 0 then (if a = 0 then NaN else if 0 < a then PInf else MInf)
      else round32 (a / b))"
| "f32_div NaN b = NaN"
| "f32_div a NaN = NaN"
| "f32_div (Finite a) b = Finite 0"
| "f32_div PInf (Finite b) = (if 0 \<le> b then PInf else MInf)"
| "f32_div MInf (Finite b) = (if 0 \<le> b then MInf else PInf)"
| "f32_div a b = NaN"

fun f32_sqrt :: "float32 \<Rightarrow> float32" where
  "f32_sqrt (Finite a) = (if a < 0 then NaN else round32 (sqrt a))"
| "f32_sqrt PInf = PInf"
| "f32_sqrt MInf = NaN"
| "f32_sqrt NaN = NaN"

text \<open>The conversion of an integer to \<^verbatim>\<open>float\<close>, and the comparison \<^verbatim>\<open><=\<close>.\<close>

definition f32_of_int :: "int \<Rightarrow> float32" where
  "f32_of_int n = round32 (of_int n)"

fun f32_le :: "float32 \<Rightarrow> float32 \<Rightarrow> bool" where
  "f32_le NaN b = False"
| "f32_le a NaN = False"
| "f32_le MInf b = True"
| "f32_le a PInf = True"
| "f32_le (Finite a) (Finite b) = (a \<le> b)"
| "f32_le a b = False"

subsection \<open>Events and state\<close>

datatype pin = LED_GREEN | LED_RED | LED_BLUE

datatype level = LOW | HIGH

datatype characteristic = vibrationX | vibrationY | vibrationZ | vibrationMag

datatype event =
    Serial_begin nat
  | Serial_wait
  | Serial_print string
  | Serial_println string
  | Serial_println_String string
  | Serial_print_float float32 nat
  | Serial_println_float float32 nat
  | PinMode_output pin
  | DigitalWrite pin level
  | Delay nat
  | IMU_begin
  | IMU_accelerationAvailable
  | IMU_readAcceleration
  | BLE_begin
  | BLE_setLocalName string
  | BLE_setAdvertisedService
  | AddCharacteristic characteristic
  | BLE_addService
  | BLE_advertise
  | BLE_central
  | Central_address
  | Central_connected
  | WriteValue characteristic float32
  | Millis
  | BLE_poll

text \<open>
  A call that contains an unbounded loop either returns, with a value and the events it
  performed, or is still running when the observed inputs (or the fuel) end, with the
  events performed so far.
\<close>

datatype 'a outcome = Returned 'a "event list" | Running "event list"

text \<open>The global variables of the main sketch.\<close>

record state =
  offsetX :: float32
  offsetY :: float32
  offsetZ :: float32
  previousMillis :: "32 word"
  connectionActive :: bool

definition initial_state :: state where
  "initial_state =
     \<lparr>offsetX = Finite 0, offsetY = Finite 0, offsetZ = Finite 0,
      previousMillis = 0, connectionActive = False\<rparr>"

definition SAMPLING_RATE_HZ :: int where
  "SAMPLING_RATE_HZ = 10"

definition CALIBRATION_SAMPLES :: int where
  "CALIBRATION_SAMPLES = 50"

text \<open>\<^verbatim>\<open>const long interval = 1000 / SAMPLING_RATE_HZ\<close>: integer division.\<close>

definition interval :: int where
  "interval = 1000 div SAMPLING_RATE_HZ"

section \<open>The main sketch\<close>

subsection \<open>Indicator patterns\<close>

definition blinkLED :: "event list" where
  "blinkLED = [DigitalWrite LED_GREEN LOW, Delay 10, DigitalWrite LED_GREEN HIGH]"

text \<open>
  \<^verbatim>\<open>showError\<close> switches the red LED on and then blinks the blue one in \<^verbatim>\<open>while (1)\<close>.
  The loop has no exit: with any fuel (the number of rounds observed) the call is
  still running.
\<close>

fun showError_loop :: "nat \<Rightarrow> event list \<Rightarrow> 'a outcome" where
  "showError_loop 0 tr = Running tr"
| "showError_loop (Suc n) tr =
     showError_loop n
       (tr @ [DigitalWrite LED_BLUE LOW, Delay 300, DigitalWrite LED_BLUE HIGH, Delay 300])"

definition showError :: "nat \<Rightarrow> event list \<Rightarrow> 'a outcome" where
  "showError fuel tr = showError_loop fuel (tr @ [DigitalWrite LED_RED LOW])"

subsection \<open>Calibration\<close>

text \<open>
  The \<^verbatim>\<open>while (samples < CALIBRATION_SAMPLES)\<close> loop. Each element of the poll list is
  one answer of the sensor to \<^verbatim>\<open>IMU.accelerationAvailable()\<close>: \<open>None\<close> when no sample is
  ready, \<open>Some (x, y, z)\<close> when \<^verbatim>\<open>IMU.readAcceleration\<close> then yields that sample. When
  the polls end before the loop does, the loop is still waiting for the sensor. The
  running sums are \<^verbatim>\<open>float\<close> variables: every \<^verbatim>\<open>+=\<close> rounds.
\<close>

fun calibration_loop ::
  "(float32 \<times> float32 \<times> float32) option list \<Rightarrow> float32 \<Rightarrow> float32 \<Rightarrow> float32 \<Rightarrow> int
     \<Rightarrow> event list \<Rightarrow> (float32 \<times> float32 \<times> float32) outcome" where
  "calibration_loop [] sumX sumY sumZ samples tr =
     (if samples < CALIBRATION_SAMPLES then Running tr
      else Returned (sumX, sumY, sumZ) tr)"
| "calibration_loop (p # ps) sumX sumY sumZ samples tr =
     (if samples < CALIBRATION_SAMPLES then
        (case p of
           None \<Rightarrow> calibration_loop ps sumX sumY sumZ samples (tr @ [IMU_accelerationAvailable])
         | Some (x, y, z) \<Rightarrow>
             calibration_loop ps (f32_add sumX x) (f32_add sumY y) (f32_add sumZ z) (samples + 1)
               (tr @ [IMU_accelerationAvailable, IMU_readAcceleration]
                   @ (if (samples + 1) mod 10 = 0 then blinkLED else [])
                   @ [Delay 20]))
      else Returned (sumX, sumY, sumZ) tr)"

text \<open>
  The sums start at 0. \<open>CALIBRATION_SAMPLES\<close> is converted to \<^verbatim>\<open>float\<close> for the divisions.
  In \<^verbatim>\<open>offsetZ - 1.0\<close> the constant is a \<^verbatim>\<open>double\<close>, so the subtraction is made in double
  precision and its result converted back on assignment; with the 53 bits of a
  \<^verbatim>\<open>double\<close> against the 24 of a \<^verbatim>\<open>float\<close>, rounding twice gives the same value as
  the one rounding of \<open>f32_sub\<close>.
\<close>

definition calibrateAccelerometer ::
  "(float32 \<times> float32 \<times> float32) option list \<Rightarrow> state \<Rightarrow> event list \<Rightarrow> state outcome" where
  "calibrateAccelerometer polls st tr =
     (case calibration_loop polls (Finite 0) (Finite 0) (Finite 0) 0
             (tr @ [Serial_println ''Calibrating accelerometer...'', DigitalWrite LED_BLUE LOW]) of
        Running tr' \<Rightarrow> Running tr'
      | Returned (sumX, sumY, sumZ) tr' \<Rightarrow>
          (let st1 = st\<lparr>offsetX := f32_div sumX (f32_of_int CALIBRATION_SAMPLES)\<rparr>;
               st2 = st1\<lparr>offsetY := f32_div sumY (f32_of_int CALIBRATION_SAMPLES)\<rparr>;
               st3 = st2\<lparr>offsetZ := f32_div sumZ (f32_of_int CALIBRATION_SAMPLES)\<rparr>;
               st4 = st3\<lparr>offsetZ := f32_sub (offsetZ st3) (Finite 1)\<rparr>
           in Returned st4
                (tr' @ [Serial_println ''Calibration complete!'',
                        Serial_print ''Offsets - X: '', Serial_print_float (offsetX st4) 6,
                        Serial_print '' Y: '', Serial_print_float (offsetY st4) 6,
                        Serial_print '' Z: '', Serial_println_float (offsetZ st4) 6,
                        DigitalWrite LED_BLUE HIGH])))"

subsection \<open>Bootstrap\<close>

text \<open>
  What the environment answers during \<^verbatim>\<open>setup()\<close> (here \<open>setup_wash_sense\<close>, since
  \<open>setup\<close> is a keyword of Isabelle): the results of \<^verbatim>\<open>IMU.begin()\<close> and
  \<^verbatim>\<open>BLE.begin()\<close>, and the sensor's answers during calibration.
\<close>

record boot_input =
  imu_begin :: bool
  ble_begin :: bool
  calibration_polls :: "(float32 \<times> float32 \<times> float32) option list"

definition setup_wash_sense :: "boot_input \<Rightarrow> nat \<Rightarrow> state outcome" where
  "setup_wash_sense b fuel =
     (let tr0 = [Serial_begin 115200,
                 PinMode_output LED_GREEN, PinMode_output LED_RED, PinMode_output LED_BLUE,
                 DigitalWrite LED_GREEN HIGH, DigitalWrite LED_RED HIGH, DigitalWrite LED_BLUE HIGH,
                 IMU_begin]
      in if \<not> imu_begin b
         then showError fuel (tr0 @ [Serial_println ''Failed to initialize IMU!''])
         else
           (case calibrateAccelerometer (calibration_polls b) initial_state
                   (tr0 @ [Serial_println ''IMU initialized.'']) of
              Running tr1 \<Rightarrow> Running tr1
            | Returned st tr1 \<Rightarrow>
                if \<not> ble_begin b
                then showError fuel (tr1 @ [BLE_begin, Serial_println ''Starting BLE failed!''])
                else Returned st
                       (tr1 @ [BLE_begin, Serial_println ''BLE initialized.'',
                               BLE_setLocalName ''Nano33BLE_Vibration'',
                               BLE_setAdvertisedService,
                               AddCharacteristic vibrationX, AddCharacteristic vibrationY,
                               AddCharacteristic vibrationZ, AddCharacteristic vibrationMag,
                               BLE_addService, BLE_advertise,
                               Serial_println ''BLE Advertising...'',
                               WriteValue vibrationX (Finite 0), WriteValue vibrationY (Finite 0),
                               WriteValue vibrationZ (Finite 0),
                               WriteValue vibrationMag (Finite 0)])))"

subsection \<open>The streaming loop\<close>

text \<open>
  \<^verbatim>\<open>readAndSendSensorData\<close> reads the offsets and writes no global variable. Its
  argument is the sensor's answer: \<open>None\<close> when \<^verbatim>\<open>IMU.accelerationAvailable()\<close> is false.
  The subtractions, products and sums are \<^verbatim>\<open>float\<close> operations. Where \<^verbatim>\<open>sqrt\<close> is
  evaluated in double precision and its result converted back on assignment, the value
  is that of the one rounding of \<open>f32_sqrt\<close>.
\<close>

definition readAndSendSensorData :: "(float32 \<times> float32 \<times> float32) option \<Rightarrow> state \<Rightarrow> event list" where
  "readAndSendSensorData acc st =
     (case acc of
        None \<Rightarrow> [IMU_accelerationAvailable]
      | Some (x0, y0, z0) \<Rightarrow>
          (let x = f32_sub x0 (offsetX st);
               y = f32_sub y0 (offsetY st);
               z = f32_sub z0 (offsetZ st);
               vibrationMagnitude =
                 f32_sqrt (f32_add (f32_add (f32_mul x x) (f32_mul y y)) (f32_mul z z))
           in [IMU_accelerationAvailable, IMU_readAcceleration,
               Serial_print ''X: '', Serial_print_float x 6,
               Serial_print '' Y: '', Serial_print_float y 6,
               Serial_print '' Z: '', Serial_print_float z 6,
               Serial_print '' Mag: '', Serial_println_float vibrationMagnitude 6,
               WriteValue vibrationX x, WriteValue vibrationY y, WriteValue vibrationZ z,
               WriteValue vibrationMag vibrationMagnitude]
              @ blinkLED))"

text \<open>
  What the environment answers during one call of \<^verbatim>\<open>loop\<close>: the central returned by
  \<^verbatim>\<open>BLE.central()\<close> (its address when one is connected), the time in milliseconds
  since boot (of which \<^verbatim>\<open>millis()\<close> returns the low 32 bits), and the sensor's answer.
\<close>

record loop_input =
  central :: "string option"
  now :: nat
  acceleration :: "(float32 \<times> float32 \<times> float32) option"

definition loop :: "loop_input \<Rightarrow> state \<Rightarrow> state \<times> event list" where
  "loop inp st =
     (let (st1, tr1) =
            (case central inp of
               Some addr \<Rightarrow>
                 if \<not> connectionActive st
                 then (st\<lparr>connectionActive := True\<rparr>,
                       [BLE_central, Serial_print ''Connected to: '', Central_address,
                        Serial_println_String addr, DigitalWrite LED_BLUE LOW])
                 else (st, [BLE_central])
             | None \<Rightarrow> (st, [BLE_central]));
          (st2, tr2) =
            (if central inp = None \<and> connectionActive st1
             then (st1\<lparr>connectionActive := False\<rparr>,
                   tr1 @ [Serial_println ''Disconnected from BLE device.'',
                          DigitalWrite LED_BLUE HIGH])
             else (st1, tr1));
          (st3, tr3) =
            (if connectionActive st2 then
               (let currentMillis = (word_of_nat (now inp) :: 32 word) in
                  if word_of_int interval \<le> currentMillis - previousMillis st2
                  then (let st' = st2\<lparr>previousMillis := currentMillis\<rparr>
                        in (st', tr2 @ [Millis] @ readAndSendSensorData (acceleration inp) st'))
                  else (st2, tr2 @ [Millis]))
             else (st2, tr2 @ [Delay 100]))
      in (st3, tr3 @ [BLE_poll]))"

text \<open>
  The Arduino core calls \<^verbatim>\<open>loop\<close> again and again. \<open>iterations\<close> gives the events of
  each call, \<open>run\<close> the state and the whole trace after the given calls.
\<close>

fun iterations :: "loop_input list \<Rightarrow> state \<Rightarrow> event list list" where
  "iterations [] st = []"
| "iterations (inp # inps) st = snd (loop inp st) # iterations inps (fst (loop inp st))"

fun run :: "loop_input list \<Rightarrow> state \<Rightarrow> state" where
  "run [] st = st"
| "run (inp # inps) st = run inps (fst (loop inp st))"

section \<open>The older sketch (part_000)\<close>

text \<open>
  The older sketch has no global variables, no calibration and no timestamp: it
  streams from a \<^verbatim>\<open>while (central.connected())\<close> loop inside \<^verbatim>\<open>loop()\<close> and sleeps one
  second per round.
\<close>

definition blinkLED_part_000 :: "event list" where
  "blinkLED_part_000 = [DigitalWrite LED_GREEN LOW, Delay 100, DigitalWrite LED_GREEN HIGH]"

text \<open>\<^verbatim>\<open>digitalWrite(LED_RED, LOW); while (1);\<close> with the fuel counting the empty rounds.\<close>

fun showError_loop_part_000 :: "nat \<Rightarrow> event list \<Rightarrow> 'a outcome" where
  "showError_loop_part_000 0 tr = Running tr"
| "showError_loop_part_000 (Suc n) tr = showError_loop_part_000 n tr"

definition showError_part_000 :: "nat \<Rightarrow> event list \<Rightarrow> 'a outcome" where
  "showError_part_000 fuel tr = showError_loop_part_000 fuel (tr @ [DigitalWrite LED_RED LOW])"

text \<open>
  \<^verbatim>\<open>while (!Serial);\<close> waits for the USB serial port; each element of the list is one
  answer of the port.
\<close>

fun wait_Serial_part_000 :: "bool list \<Rightarrow> event list \<Rightarrow> unit outcome" where
  "wait_Serial_part_000 [] tr = Running tr"
| "wait_Serial_part_000 (ready # rs) tr =
     (if ready then Returned () (tr @ [Serial_wait])
      else wait_Serial_part_000 rs (tr @ [Serial_wait]))"

record boot_input_part_000 =
  serial_polls :: "bool list"
  imu_begin_part_000 :: bool
  ble_begin_part_000 :: bool

definition setup_part_000 :: "boot_input_part_000 \<Rightarrow> nat \<Rightarrow> unit outcome" where
  "setup_part_000 b fuel =
     (case wait_Serial_part_000 (serial_polls b) [Serial_begin 115200] of
        Running tr0 \<Rightarrow> Running tr0
      | Returned u tr0 \<Rightarrow>
          (let tr1 = tr0 @ [PinMode_output LED_GREEN, PinMode_output LED_RED,
                            DigitalWrite LED_GREEN HIGH, DigitalWrite LED_RED HIGH, IMU_begin]
           in if \<not> imu_begin_part_000 b
              then showError_part_000 fuel (tr1 @ [Serial_println ''Failed to initialize IMU!''])
              else if \<not> ble_begin_part_000 b
              then showError_part_000 fuel
                     (tr1 @ [Serial_println ''IMU initialized.'', BLE_begin,
                             Serial_println ''Starting BLE failed!''])
              else Returned ()
                     (tr1 @ [Serial_println ''IMU initialized.'', BLE_begin,
                             Serial_println ''BLE initialized.'',
                             BLE_setLocalName ''Nano33BLE_Vibration'',
                             BLE_setAdvertisedService,
                             AddCharacteristic vibrationX, AddCharacteristic vibrationY,
                             AddCharacteristic vibrationZ, AddCharacteristic vibrationMag,
                             BLE_addService, BLE_advertise,
                             Serial_println ''BLE Advertising...''])))"

text \<open>
  One round of the \<^verbatim>\<open>while (central.connected())\<close> loop, after the test succeeded: the
  sensor is read when a sample is available, then \<^verbatim>\<open>delay(1000)\<close>.
\<close>

definition connected_round_part_000 :: "(float32 \<times> float32 \<times> float32) option \<Rightarrow> event list" where
  "connected_round_part_000 acc =
     (case acc of
        None \<Rightarrow> [IMU_accelerationAvailable]
      | Some (x, y, z) \<Rightarrow>
          (let vibrationMagnetude =
                 f32_sqrt (f32_add (f32_add (f32_mul (f32_sub x (f32_of_int 1))
                                                     (f32_sub x (f32_of_int 1)))
                                            (f32_mul y y))
                                   (f32_mul z z))
           in [IMU_accelerationAvailable, IMU_readAcceleration,
               Serial_print ''X: '', Serial_print_float (f32_sub x (f32_of_int 1)) 6,
               Serial_print '' Y: '', Serial_print_float y 6,
               Serial_print '' Z: '', Serial_print_float z 6,
               Serial_print '' Mag: '', Serial_println_float vibrationMagnetude 6,
               WriteValue vibrationX (f32_sub x (f32_of_int 1)), WriteValue vibrationY y,
               WriteValue vibrationZ z,
               WriteValue vibrationMag vibrationMagnetude]
              @ blinkLED_part_000))
     @ [Delay 1000]"

text \<open>
  Each element of the list is one test of \<^verbatim>\<open>central.connected()\<close> together with the
  sensor's answer in that round. When the list ends while the peer is still connected,
  the loop is still running.
\<close>

fun connected_loop_part_000 ::
  "(bool \<times> (float32 \<times> float32 \<times> float32) option) list \<Rightarrow> event list \<Rightarrow> unit outcome" where
  "connected_loop_part_000 [] tr = Running tr"
| "connected_loop_part_000 ((is_connected, acc) # rs) tr =
     (if is_connected
      then connected_loop_part_000 rs (tr @ [Central_connected] @ connected_round_part_000 acc)
      else Returned () (tr @ [Central_connected]))"

definition loop_part_000 ::
  "string option \<Rightarrow> (bool \<times> (float32 \<times> float32 \<times> float32) option) list \<Rightarrow> unit outcome" where
  "loop_part_000 c rounds =
     (case c of
        None \<Rightarrow> Returned () [BLE_central]
      | Some addr \<Rightarrow>
          (case connected_loop_part_000 rounds
                  [BLE_central, Serial_print ''Connected to: '', Central_address,
                   Serial_println_String addr] of
             Running tr \<Rightarrow> Running tr
           | Returned u tr \<Rightarrow> Returned () (tr @ [Serial_println ''Disconnected from BLE device.''])))"

section \<open>Observations on traces\<close>

text \<open>The events a call has performed, whether it returned or not.\<close>

fun trace_of :: "'a outcome \<Rightarrow> event list" where
  "trace_of (Returned v tr) = tr"
| "trace_of (Running tr) = tr"


text \<open>The attribute writes of a trace, in order.\<close>

fun published :: "event list \<Rightarrow> (characteristic \<times> float32) list" where
  "published [] = []"
| "published (WriteValue c v # es) = (c, v) # published es"
| "published (e # es) = published es"

definition publishes :: "event list \<Rightarrow> bool" where
  "publishes tr = (published tr \<noteq> [])"

text \<open>The durations of the delays of a trace, in order, in milliseconds.\<close>

fun delays :: "event list \<Rightarrow> nat list" where
  "delays [] = []"
| "delays (Delay d # es) = d # delays es"
| "delays (e # es) = delays es"

text \<open>
  The value a peer reads from an attribute after a trace: the last value written to it,
  \<open>None\<close> when the sketch has not written it yet.
\<close>

fun readValue :: "event list \<Rightarrow> characteristic \<Rightarrow> float32 option" where
  "readValue [] c = None"
| "readValue (e # es) c =
     (case readValue es c of
        Some v \<Rightarrow> Some v
      | None \<Rightarrow> (case e of WriteValue c' v \<Rightarrow> if c' = c then Some v else None | _ \<Rightarrow> None))"

text \<open>
  What an observer sees of \<^verbatim>\<open>showError\<close> of the main sketch after \<open>n\<close> rounds of its
  loop: the red LED switched on, then the blue LED blinking.
\<close>

definition error_pattern :: "nat \<Rightarrow> event list" where
  "error_pattern n =
     DigitalWrite LED_RED LOW
     # concat (replicate n
         [DigitalWrite LED_BLUE LOW, Delay 300, DigitalWrite LED_BLUE HIGH, Delay 300])"

text \<open>
  The delays between consecutive publish events of a trace, in milliseconds: the sum of
  the delays between one write of the X attribute and the next. \<open>since\<close> is the delay
  accumulated since the last such write, \<open>None\<close> before the first.
\<close>

fun publish_gaps :: "nat option \<Rightarrow> event list \<Rightarrow> nat list" where
  "publish_gaps since [] = []"
| "publish_gaps since (WriteValue c v # es) =
     (if c = vibrationX
      then (case since of None \<Rightarrow> [] | Some d \<Rightarrow> [d]) @ publish_gaps (Some 0) es
      else publish_gaps since es)"
| "publish_gaps since (Delay n # es) = publish_gaps (map_option (\<lambda>d. d + n) since) es"
| "publish_gaps since (e # es) = publish_gaps since es"

text \<open>
  The events of the rounds of the connected loop of the older sketch, without the
  accumulator of \<open>connected_loop_part_000\<close>.
\<close>

fun rounds_part_000 :: "(bool \<times> (float32 \<times> float32 \<times> float32) option) list \<Rightarrow> event list" where
  "rounds_part_000 [] = []"
| "rounds_part_000 ((is_connected, acc) # rs) =
     (if is_connected then [Central_connected] @ connected_round_part_000 acc @ rounds_part_000 rs
      else [Central_connected])"

text \<open>The clock readings of the calls of \<^verbatim>\<open>loop\<close> that publish a sample.\<close>

fun publish_times :: "loop_input list \<Rightarrow> state \<Rightarrow> nat list" where
  "publish_times [] st = []"
| "publish_times (inp # inps) st =
     (if publishes (snd (loop inp st)) then [now inp] else [])
     @ publish_times inps (fst (loop inp st))"

text \<open>
  The samples the calibration accepts: the first \<open>CALIBRATION_SAMPLES\<close> samples the
  sensor reports as available.
\<close>

fun available :: "'a option list \<Rightarrow> 'a list" where
  "available [] = []"
| "available (None # ps) = available ps"
| "available (Some s # ps) = s # available ps"

definition accepted :: "'a option list \<Rightarrow> 'a list" where
  "accepted polls = take (nat CALIBRATION_SAMPLES) (available polls)"

text \<open>
  Two means of a list of \<^verbatim>\<open>float\<close> values. \<open>f32_mean\<close> is the mean as single-precision
  arithmetic computes it: the running sum from the left, every addition rounded, divided
  by the length, rounded. \<open>mean\<close> is the arithmetic mean of real numbers.
\<close>

definition f32_sum :: "float32 list \<Rightarrow> float32" where
  "f32_sum xs = foldl f32_add (Finite 0) xs"

definition f32_mean :: "float32 list \<Rightarrow> float32" where
  "f32_mean xs = f32_div (f32_sum xs) (f32_of_int (int (length xs)))"


text \<open>
  The magnitude of a corrected sample, as \<^verbatim>\<open>readAndSendSensorData\<close> computes it:
  \<^verbatim>\<open>sqrt(x*x + y*y + z*z)\<close>, every operation rounded.
\<close>

definition norm3 :: "float32 \<Rightarrow> float32 \<Rightarrow> float32 \<Rightarrow> float32" where
  "norm3 x y z = f32_sqrt (f32_add (f32_add (f32_mul x x) (f32_mul y y)) (f32_mul z z))"

text \<open>
  The number of changes from disconnected to connected, and from connected to
  disconnected, in a sequence of connection levels that follows the level \<open>prev\<close>.
\<close>

fun rising_edges :: "bool \<Rightarrow> bool list \<Rightarrow> nat" where
  "rising_edges prev [] = 0"
| "rising_edges prev (b # bs) = (if b \<and> \<not> prev then 1 else 0) + rising_edges b bs"

fun falling_edges :: "bool \<Rightarrow> bool list \<Rightarrow> nat" where
  "falling_edges prev [] = 0"
| "falling_edges prev (b # bs) = (if \<not> b \<and> prev then 1 else 0) + falling_edges b bs"

section \<open>Facts about single-precision arithmetic\<close>

lemma pow2_powr: "pow2 e = 2 powr (real_of_int e)"
  by (simp add: pow2_def powr_real_of_int inverse_eq_divide)

lemma pow2_pos: "0 < pow2 e"
  by (simp add: pow2_def)

lemma ulp32_pos: "0 < ulp32 x"
  by (simp add: ulp32_def pow2_pos)

text \<open>The unit of a number whose binary exponent is known.\<close>

lemma ulp32_eval:
  assumes "pow2 k \<le> \<bar>x\<bar>" "\<bar>x\<bar> < pow2 (k + 1)"
  shows "ulp32 x = pow2 (max k (- 126) - 23)"
proof -
  have pos: "0 < \<bar>x\<bar>" using assms(1) pow2_pos [of k] by linarith
  have "\<lfloor>log 2 \<bar>x\<bar>\<rfloor> = k"
    using assms pos by (simp add: floor_log_eq_powr_iff pow2_powr)
  then show ?thesis by (simp add: ulp32_def)
qed

lemma round32_0: "round32 0 = Finite 0"
  by (simp add: round32_def)

lemma round32_1: "round32 1 = Finite 1"
proof -
  have "ulp32 1 = pow2 (max 0 (- 126) - 23)"
    by (rule ulp32_eval) (simp_all add: pow2_def)
  then have u: "ulp32 1 = 1 / 8388608" by (simp add: pow2_def)
  show ?thesis by (simp add: round32_def u round_even_def Let_def)
qed

lemma round32_minus_1: "round32 (- 1) = Finite (- 1)"
proof -
  have "ulp32 (- 1) = pow2 (max 0 (- 126) - 23)"
    by (rule ulp32_eval) (simp_all add: pow2_def)
  then have u: "ulp32 (- 1) = 1 / 8388608" by (simp add: pow2_def)
  show ?thesis by (simp add: round32_def u round_even_def Let_def)
qed

lemma round32_50: "round32 50 = Finite 50"
proof -
  have "ulp32 50 = pow2 (max 5 (- 126) - 23)"
    by (rule ulp32_eval) (simp_all add: pow2_def)
  then have u: "ulp32 50 = 1 / 262144" by (simp add: pow2_def)
  show ?thesis by (simp add: round32_def u round_even_def Let_def)
qed


lemma f32_of_int_50: "f32_of_int 50 = Finite 50"
  by (simp add: f32_of_int_def round32_50)

text \<open>Rounding a number that is not negative gives no negative number and no NaN.\<close>

lemma round_even_nonneg: "0 \<le> r \<Longrightarrow> 0 \<le> round_even r"
  by (auto simp add: round_even_def Let_def)

lemma round32_nonneg: "0 \<le> x \<Longrightarrow> f32_le (Finite 0) (round32 x)"
proof -
  assume x: "0 \<le> x"
  have "0 \<le> x / ulp32 x" using x ulp32_pos [of x] by simp
  then have "0 \<le> round_even (x / ulp32 x)" by (rule round_even_nonneg)
  then have "0 \<le> of_int (round_even (x / ulp32 x)) * ulp32 x"
    using ulp32_pos [of x] by simp
  then show ?thesis by (simp add: round32_def Let_def)
qed

lemma round32_not_NaN: "round32 x \<noteq> NaN"
  by (simp add: round32_def Let_def)

lemma f32_sub_self: "f32_sub (Finite a) (Finite a) = Finite 0"
  by (simp add: f32_sub_def round32_0)

lemma f32_sum_zeros: "foldl f32_add (Finite 0) (replicate n (Finite 0)) = Finite 0"
  by (induction n) (simp_all add: round32_0)


section \<open>Calibration computes the single-precision mean of the accepted samples\<close>

lemma nat_remaining: "samples < 50 \<Longrightarrow> nat (50 - samples) = Suc (nat (50 - (samples + 1)))"
  by simp

text \<open>
  The loop, started with \<open>samples\<close> samples already taken, returns as soon as the sensor
  has delivered the remaining ones, with these added one by one to the running sums, and
  has read the sensor exactly that many times.
\<close>

lemma calibration_loop_returns:
  "samples \<le> 50 \<Longrightarrow> nat (50 - samples) \<le> length (available ps) \<Longrightarrow>
   \<exists>tr'. calibration_loop ps sumX sumY sumZ samples tr =
     Returned (foldl f32_add sumX (map fst (take (nat (50 - samples)) (available ps))),
               foldl f32_add sumY (map (fst \<circ> snd) (take (nat (50 - samples)) (available ps))),
               foldl f32_add sumZ (map (snd \<circ> snd) (take (nat (50 - samples)) (available ps)))) tr'
     \<and> count_list tr' IMU_readAcceleration = count_list tr IMU_readAcceleration + nat (50 - samples)"
proof (induction ps arbitrary: sumX sumY sumZ samples tr)
  case Nil
  then show ?case by (simp add: CALIBRATION_SAMPLES_def)
next
  case (Cons p ps)
  show ?case
  proof (cases "samples < 50")
    case False
    with Cons.prems show ?thesis by (simp add: CALIBRATION_SAMPLES_def)
  next
    case True
    show ?thesis
    proof (cases p)
      case None
      with True Cons.prems Cons.IH [of samples sumX sumY sumZ "tr @ [IMU_accelerationAvailable]"]
      show ?thesis by (simp add: CALIBRATION_SAMPLES_def)
    next
      case (Some s)
      obtain x y z where s: "s = (x, y, z)" by (cases s) auto
      have n: "nat (50 - samples) = Suc (nat (50 - (samples + 1)))"
        using True by (rule nat_remaining)
      have le: "nat (50 - (samples + 1)) \<le> length (available ps)"
        using Cons.prems(2) Some n by simp
      from Cons.IH [OF _ le, of "f32_add sumX x" "f32_add sumY y" "f32_add sumZ z"
          "tr @ [IMU_accelerationAvailable, IMU_readAcceleration]
              @ (if (samples + 1) mod 10 = 0 then blinkLED else []) @ [Delay 20]"] True
      show ?thesis
        unfolding n using Some s True
        by (auto simp add: CALIBRATION_SAMPLES_def blinkLED_def)
    qed
  qed
qed

text \<open>Conversely, the loop returns only when the sensor has delivered the remaining samples.\<close>

lemma calibration_loop_needs_samples:
  "calibration_loop ps sumX sumY sumZ samples tr = Returned v tr' \<Longrightarrow>
   nat (50 - samples) \<le> length (available ps)"
proof (induction ps arbitrary: sumX sumY sumZ samples tr)
  case Nil
  then show ?case by (simp add: CALIBRATION_SAMPLES_def split: if_splits)
next
  case (Cons p ps)
  show ?case
  proof (cases "samples < 50")
    case False
    then show ?thesis by simp
  next
    case True
    show ?thesis
    proof (cases p)
      case None
      with True Cons.prems have
        "calibration_loop ps sumX sumY sumZ samples (tr @ [IMU_accelerationAvailable]) = Returned v tr'"
        by (simp add: CALIBRATION_SAMPLES_def)
      from Cons.IH [OF this] None show ?thesis by simp
    next
      case (Some s)
      obtain x y z where s: "s = (x, y, z)" by (cases s) auto
      from True Cons.prems Some s have
        "calibration_loop ps (f32_add sumX x) (f32_add sumY y) (f32_add sumZ z) (samples + 1)
           (tr @ [IMU_accelerationAvailable, IMU_readAcceleration]
               @ (if (samples + 1) mod 10 = 0 then blinkLED else []) @ [Delay 20]) = Returned v tr'"
        by (simp add: CALIBRATION_SAMPLES_def)
      from Cons.IH [OF this] Some True show ?thesis by simp
    qed
  qed
qed

lemma calibrateAccelerometer_needs_samples:
  "calibrateAccelerometer polls st tr = Returned st' tr' \<Longrightarrow>
   nat CALIBRATION_SAMPLES \<le> length (available polls)"
proof -
  assume r: "calibrateAccelerometer polls st tr = Returned st' tr'"
  then obtain v tr1 where
    "calibration_loop polls (Finite 0) (Finite 0) (Finite 0) 0
       (tr @ [Serial_println ''Calibrating accelerometer...'', DigitalWrite LED_BLUE LOW]) =
     Returned v tr1"
    by (auto simp add: calibrateAccelerometer_def split: outcome.splits)
  from calibration_loop_needs_samples [OF this] show ?thesis
    by (simp add: CALIBRATION_SAMPLES_def)
qed

lemma available_replicate: "available (replicate n (Some s)) = replicate n s"
  by (induction n) simp_all

text \<open>
  What the calibration returns: whenever the sensor delivers at least
  \<open>CALIBRATION_SAMPLES\<close> samples, it returns, having read the sensor exactly
  \<open>CALIBRATION_SAMPLES\<close> times, and the offsets it stores are the single-precision means of
  the accepted samples, with 1 subtracted on the Z axis only.
\<close>

lemma calibrateAccelerometer_result:
  assumes "nat CALIBRATION_SAMPLES \<le> length (available polls)"
  shows "\<exists>tr'. calibrateAccelerometer polls st tr =
           Returned (st\<lparr>offsetX := f32_mean (map fst (accepted polls)),
                        offsetY := f32_mean (map (fst \<circ> snd) (accepted polls)),
                        offsetZ := f32_sub (f32_mean (map (snd \<circ> snd) (accepted polls)))
                                     (Finite 1)\<rparr>) tr'
         \<and> count_list tr' IMU_readAcceleration =
             count_list tr IMU_readAcceleration + nat CALIBRATION_SAMPLES"
proof -
  have le: "nat (50 - 0) \<le> length (available polls)"
    using assms by (simp add: CALIBRATION_SAMPLES_def)
  have len: "length (accepted polls) = 50"
    using assms by (simp add: accepted_def CALIBRATION_SAMPLES_def)
  from calibration_loop_returns [OF _ le, of "Finite 0" "Finite 0" "Finite 0"
      "tr @ [Serial_println ''Calibrating accelerometer...'', DigitalWrite LED_BLUE LOW]"]
  obtain tr1 where
    r: "calibration_loop polls (Finite 0) (Finite 0) (Finite 0) 0
          (tr @ [Serial_println ''Calibrating accelerometer...'', DigitalWrite LED_BLUE LOW]) =
        Returned (f32_sum (map fst (accepted polls)),
                  f32_sum (map (fst \<circ> snd) (accepted polls)),
                  f32_sum (map (snd \<circ> snd) (accepted polls))) tr1"
    and c: "count_list tr1 IMU_readAcceleration = count_list tr IMU_readAcceleration + 50"
    by (auto simp add: accepted_def CALIBRATION_SAMPLES_def f32_sum_def)
  show ?thesis
    using r c len
    by (simp add: calibrateAccelerometer_def f32_mean_def CALIBRATION_SAMPLES_def Let_def)
qed



lemma f32_mean_zeros: "f32_mean (replicate 50 (Finite 0)) = Finite 0"
  by (simp add: f32_mean_def f32_sum_def f32_sum_zeros f32_of_int_50 round32_0)

lemma f32_zero_minus_one: "f32_sub (Finite 0) (Finite 1) = Finite (- 1)"
  by (simp add: f32_sub_def round32_minus_1)


text \<open>
  Rounding shows even when all samples are equal. The \<^verbatim>\<open>float\<close> nearest to 0.1 is
  13421773/134217728; the running sum of 50 such samples is 10485755/2097152 and the
  mean the calibration computes is 6710883/67108864, seven units in the last place below
  the sample. Each \<open>r\<close> below is one rounding of the running sum; the last is the
  division.
\<close>

lemma f32_mean_tenths:
  "f32_mean (replicate 50 (Finite (13421773 / 134217728))) = Finite (6710883 / 67108864)"
proof -
  have r0: "round32 (13421773 / 134217728) = Finite (13421773 / 134217728)"
  proof -
    have "ulp32 (13421773 / 134217728) = pow2 (max (- 4) (- 126) - 23)"
      by (rule ulp32_eval) (simp_all add: pow2_def)
    then have u: "ulp32 (13421773 / 134217728) = 1 / 134217728" by (simp add: pow2_def)
    show ?thesis by (simp add: round32_def u round_even_def Let_def)
  qed
  have r1: "round32 (13421773 / 67108864) = Finite (13421773 / 67108864)"
  proof -
    have "ulp32 (13421773 / 67108864) = pow2 (max (- 3) (- 126) - 23)"
      by (rule ulp32_eval) (simp_all add: pow2_def)
    then have u: "ulp32 (13421773 / 67108864) = 1 / 67108864" by (simp add: pow2_def)
    show ?thesis by (simp add: round32_def u round_even_def Let_def)
  qed
  have r2: "round32 (40265319 / 134217728) = Finite (5033165 / 16777216)"
  proof -
    have "ulp32 (40265319 / 134217728) = pow2 (max (- 2) (- 126) - 23)"
      by (rule ulp32_eval) (simp_all add: pow2_def)
    then have u: "ulp32 (40265319 / 134217728) = 1 / 33554432" by (simp add: pow2_def)
    show ?thesis by (simp add: round32_def u round_even_def Let_def)
  qed
  have r3: "round32 (53687093 / 134217728) = Finite (13421773 / 33554432)"
  proof -
    have "ulp32 (53687093 / 134217728) = pow2 (max (- 2) (- 126) - 23)"
      by (rule ulp32_eval) (simp_all add: pow2_def)
    then have u: "ulp32 (53687093 / 134217728) = 1 / 33554432" by (simp add: pow2_def)
    show ?thesis by (simp add: round32_def u round_even_def Let_def)
  qed
  have r4: "round32 (67108865 / 134217728) = Finite (1 / 2)"
  proof -
    have "ulp32 (67108865 / 134217728) = pow2 (max (- 1) (- 126) - 23)"
      by (rule ulp32_eval) (simp_all add: pow2_def)
    then have u: "ulp32 (67108865 / 134217728) = 1 / 16777216" by (simp add: pow2_def)
    show ?thesis by (simp add: round32_def u round_even_def Let_def)
  qed
  have r5: "round32 (80530637 / 134217728) = Finite (5033165 / 8388608)"
  proof -
    have "ulp32 (80530637 / 134217728) = pow2 (max (- 1) (- 126) - 23)"
      by (rule ulp32_eval) (simp_all add: pow2_def)
    then have u: "ulp32 (80530637 / 134217728) = 1 / 16777216" by (simp add: pow2_def)
    show ?thesis by (simp add: round32_def u round_even_def Let_def)
  qed
  have r6: "round32 (93952413 / 134217728) = Finite (2936013 / 4194304)"
  proof -
    have "ulp32 (93952413 / 134217728) = pow2 (max (- 1) (- 126) - 23)"
      by (rule ulp32_eval) (simp_all add: pow2_def)
    then have u: "ulp32 (93952413 / 134217728) = 1 / 16777216" by (simp add: pow2_def)
    show ?thesis by (simp add: round32_def u round_even_def Let_def)
  qed
  have r7: "round32 (107374189 / 134217728) = Finite (6710887 / 8388608)"
  proof -
    have "ulp32 (107374189 / 134217728) = pow2 (max (- 1) (- 126) - 23)"
      by (rule ulp32_eval) (simp_all add: pow2_def)
    then have u: "ulp32 (107374189 / 134217728) = 1 / 16777216" by (simp add: pow2_def)
    show ?thesis by (simp add: round32_def u round_even_def Let_def)
  qed
  have r8: "round32 (120795965 / 134217728) = Finite (1887437 / 2097152)"
  proof -
    have "ulp32 (120795965 / 134217728) = pow2 (max (- 1) (- 126) - 23)"
      by (rule ulp32_eval) (simp_all add: pow2_def)
    then have u: "ulp32 (120795965 / 134217728) = 1 / 16777216" by (simp add: pow2_def)
    show ?thesis by (simp add: round32_def u round_even_def Let_def)
  qed
  have r9: "round32 (134217741 / 134217728) = Finite (8388609 / 8388608)"
  proof -
    have "ulp32 (134217741 / 134217728) = pow2 (max (0) (- 126) - 23)"
      by (rule ulp32_eval) (simp_all add: pow2_def)
    then have u: "ulp32 (134217741 / 134217728) = 1 / 8388608" by (simp add: pow2_def)
    show ?thesis by (simp add: round32_def u round_even_def Let_def)
  qed
  have r10: "round32 (147639517 / 134217728) = Finite (4613735 / 4194304)"
  proof -
    have "ulp32 (147639517 / 134217728) = pow2 (max (0) (- 126) - 23)"
      by (rule ulp32_eval) (simp_all add: pow2_def)
    then have u: "ulp32 (147639517 / 134217728) = 1 / 8388608" by (simp add: pow2_def)
    show ?thesis by (simp add: round32_def u round_even_def Let_def)
  qed
  have r11: "round32 (161061293 / 134217728) = Finite (10066331 / 8388608)"
  proof -
    have "ulp32 (161061293 / 134217728) = pow2 (max (0) (- 126) - 23)"
      by (rule ulp32_eval) (simp_all add: pow2_def)
    then have u: "ulp32 (161061293 / 134217728) = 1 / 8388608" by (simp add: pow2_def)
    show ?thesis by (simp add: round32_def u round_even_def Let_def)
  qed
  have r12: "round32 (174483069 / 134217728) = Finite (1363149 / 1048576)"
  proof -
    have "ulp32 (174483069 / 134217728) = pow2 (max (0) (- 126) - 23)"
      by (rule ulp32_eval) (simp_all add: pow2_def)
    then have u: "ulp32 (174483069 / 134217728) = 1 / 8388608" by (simp add: pow2_def)
    show ?thesis by (simp add: round32_def u round_even_def Let_def)
  qed
  have r13: "round32 (187904845 / 134217728) = Finite (11744053 / 8388608)"
  proof -
    have "ulp32 (187904845 / 134217728) = pow2 (max (0) (- 126) - 23)"
      by (rule ulp32_eval) (simp_all add: pow2_def)
    then have u: "ulp32 (187904845 / 134217728) = 1 / 8388608" by (simp add: pow2_def)
    show ?thesis by (simp add: round32_def u round_even_def Let_def)
  qed
  have r14: "round32 (201326621 / 134217728) = Finite (6291457 / 4194304)"
  proof -
    have "ulp32 (201326621 / 134217728) = pow2 (max (0) (- 126) - 23)"
      by (rule ulp32_eval) (simp_all add: pow2_def)
    then have u: "ulp32 (201326621 / 134217728) = 1 / 8388608" by (simp add: pow2_def)
    show ?thesis by (simp add: round32_def u round_even_def Let_def)
  qed
  have r15: "round32 (214748397 / 134217728) = Finite (13421775 / 8388608)"
  proof -
    have "ulp32 (214748397 / 134217728) = pow2 (max (0) (- 126) - 23)"
      by (rule ulp32_eval) (simp_all add: pow2_def)
    then have u: "ulp32 (214748397 / 134217728) = 1 / 8388608" by (simp add: pow2_def)
    show ?thesis by (simp add: round32_def u round_even_def Let_def)
  qed
  have r16: "round32 (228170173 / 134217728) = Finite (3565159 / 2097152)"
  proof -
    have "ulp32 (228170173 / 134217728) = pow2 (max (0) (- 126) - 23)"
      by (rule ulp32_eval) (simp_all add: pow2_def)
    then have u: "ulp32 (228170173 / 134217728) = 1 / 8388608" by (simp add: pow2_def)
    show ?thesis by (simp add: round32_def u round_even_def Let_def)
  qed
  have r17: "round32 (241591949 / 134217728) = Finite (15099497 / 8388608)"
  proof -
    have "ulp32 (241591949 / 134217728) = pow2 (max (0) (- 126) - 23)"
      by (rule ulp32_eval) (simp_all add: pow2_def)
    then have u: "ulp32 (241591949 / 134217728) = 1 / 8388608" by (simp add: pow2_def)
    show ?thesis by (simp add: round32_def u round_even_def Let_def)
  qed
  have r18: "round32 (255013725 / 134217728) = Finite (7969179 / 4194304)"
  proof -
    have "ulp32 (255013725 / 134217728) = pow2 (max (0) (- 126) - 23)"
      by (rule ulp32_eval) (simp_all add: pow2_def)
    then have u: "ulp32 (255013725 / 134217728) = 1 / 8388608" by (simp add: pow2_def)
    show ?thesis by (simp add: round32_def u round_even_def Let_def)
  qed
  have r19: "round32 (268435501 / 134217728) = Finite (8388609 / 4194304)"
  proof -
    have "ulp32 (268435501 / 134217728) = pow2 (max (1) (- 126) - 23)"
      by (rule ulp32_eval) (simp_all add: pow2_def)
    then have u: "ulp32 (268435501 / 134217728) = 1 / 4194304" by (simp add: pow2_def)
    show ?thesis by (simp add: round32_def u round_even_def Let_def)
  qed
  have r20: "round32 (281857261 / 134217728) = Finite (8808039 / 4194304)"
  proof -
    have "ulp32 (281857261 / 134217728) = pow2 (max (1) (- 126) - 23)"
      by (rule ulp32_eval) (simp_all add: pow2_def)
    then have u: "ulp32 (281857261 / 134217728) = 1 / 4194304" by (simp add: pow2_def)
    show ?thesis by (simp add: round32_def u round_even_def Let_def)
  qed
  have r21: "round32 (295279021 / 134217728) = Finite (9227469 / 4194304)"
  proof -
    have "ulp32 (295279021 / 134217728) = pow2 (max (1) (- 126) - 23)"
      by (rule ulp32_eval) (simp_all add: pow2_def)
    then have u: "ulp32 (295279021 / 134217728) = 1 / 4194304" by (simp add: pow2_def)
    show ?thesis by (simp add: round32_def u round_even_def Let_def)
  qed
  have r22: "round32 (308700781 / 134217728) = Finite (9646899 / 4194304)"
  proof -
    have "ulp32 (308700781 / 134217728) = pow2 (max (1) (- 126) - 23)"
      by (rule ulp32_eval) (simp_all add: pow2_def)
    then have u: "ulp32 (308700781 / 134217728) = 1 / 4194304" by (simp add: pow2_def)
    show ?thesis by (simp add: round32_def u round_even_def Let_def)
  qed
  have r23: "round32 (322122541 / 134217728) = Finite (10066329 / 4194304)"
  proof -
    have "ulp32 (322122541 / 134217728) = pow2 (max (1) (- 126) - 23)"
      by (rule ulp32_eval) (simp_all add: pow2_def)
    then have u: "ulp32 (322122541 / 134217728) = 1 / 4194304" by (simp add: pow2_def)
    show ?thesis by (simp add: round32_def u round_even_def Let_def)
  qed
  have r24: "round32 (335544301 / 134217728) = Finite (10485759 / 4194304)"
  proof -
    have "ulp32 (335544301 / 134217728) = pow2 (max (1) (- 126) - 23)"
      by (rule ulp32_eval) (simp_all add: pow2_def)
    then have u: "ulp32 (335544301 / 134217728) = 1 / 4194304" by (simp add: pow2_def)
    show ?thesis by (simp add: round32_def u round_even_def Let_def)
  qed
  have r25: "round32 (348966061 / 134217728) = Finite (10905189 / 4194304)"
  proof -
    have "ulp32 (348966061 / 134217728) = pow2 (max (1) (- 126) - 23)"
      by (rule ulp32_eval) (simp_all add: pow2_def)
    then have u: "ulp32 (348966061 / 134217728) = 1 / 4194304" by (simp add: pow2_def)
    show ?thesis by (simp add: round32_def u round_even_def Let_def)
  qed
  have r26: "round32 (362387821 / 134217728) = Finite (11324619 / 4194304)"
  proof -
    have "ulp32 (362387821 / 134217728) = pow2 (max (1) (- 126) - 23)"
      by (rule ulp32_eval) (simp_all add: pow2_def)
    then have u: "ulp32 (362387821 / 134217728) = 1 / 4194304" by (simp add: pow2_def)
    show ?thesis by (simp add: round32_def u round_even_def Let_def)
  qed
  have r27: "round32 (375809581 / 134217728) = Finite (11744049 / 4194304)"
  proof -
    have "ulp32 (375809581 / 134217728) = pow2 (max (1) (- 126) - 23)"
      by (rule ulp32_eval) (simp_all add: pow2_def)
    then have u: "ulp32 (375809581 / 134217728) = 1 / 4194304" by (simp add: pow2_def)
    show ?thesis by (simp add: round32_def u round_even_def Let_def)
  qed
  have r28: "round32 (389231341 / 134217728) = Finite (12163479 / 4194304)"
  proof -
    have "ulp32 (389231341 / 134217728) = pow2 (max (1) (- 126) - 23)"
      by (rule ulp32_eval) (simp_all add: pow2_def)
    then have u: "ulp32 (389231341 / 134217728) = 1 / 4194304" by (simp add: pow2_def)
    show ?thesis by (simp add: round32_def u round_even_def Let_def)
  qed
  have r29: "round32 (402653101 / 134217728) = Finite (12582909 / 4194304)"
  proof -
    have "ulp32 (402653101 / 134217728) = pow2 (max (1) (- 126) - 23)"
      by (rule ulp32_eval) (simp_all add: pow2_def)
    then have u: "ulp32 (402653101 / 134217728) = 1 / 4194304" by (simp add: pow2_def)
    show ?thesis by (simp add: round32_def u round_even_def Let_def)
  qed
  have r30: "round32 (416074861 / 134217728) = Finite (13002339 / 4194304)"
  proof -
    have "ulp32 (416074861 / 134217728) = pow2 (max (1) (- 126) - 23)"
      by (rule ulp32_eval) (simp_all add: pow2_def)
    then have u: "ulp32 (416074861 / 134217728) = 1 / 4194304" by (simp add: pow2_def)
    show ?thesis by (simp add: round32_def u round_even_def Let_def)
  qed
  have r31: "round32 (429496621 / 134217728) = Finite (13421769 / 4194304)"
  proof -
    have "ulp32 (429496621 / 134217728) = pow2 (max (1) (- 126) - 23)"
      by (rule ulp32_eval) (simp_all add: pow2_def)
    then have u: "ulp32 (429496621 / 134217728) = 1 / 4194304" by (simp add: pow2_def)
    show ?thesis by (simp add: round32_def u round_even_def Let_def)
  qed
  have r32: "round32 (442918381 / 134217728) = Finite (13841199 / 4194304)"
  proof -
    have "ulp32 (442918381 / 134217728) = pow2 (max (1) (- 126) - 23)"
      by (rule ulp32_eval) (simp_all add: pow2_def)
    then have u: "ulp32 (442918381 / 134217728) = 1 / 4194304" by (simp add: pow2_def)
    show ?thesis by (simp add: round32_def u round_even_def Let_def)
  qed
  have r33: "round32 (456340141 / 134217728) = Finite (14260629 / 4194304)"
  proof -
    have "ulp32 (456340141 / 134217728) = pow2 (max (1) (- 126) - 23)"
      by (rule ulp32_eval) (simp_all add: pow2_def)
    then have u: "ulp32 (456340141 / 134217728) = 1 / 4194304" by (simp add: pow2_def)
    show ?thesis by (simp add: round32_def u round_even_def Let_def)
  qed
  have r34: "round32 (469761901 / 134217728) = Finite (14680059 / 4194304)"
  proof -
    have "ulp32 (469761901 / 134217728) = pow2 (max (1) (- 126) - 23)"
      by (rule ulp32_eval) (simp_all add: pow2_def)
    then have u: "ulp32 (469761901 / 134217728) = 1 / 4194304" by (simp add: pow2_def)
    show ?thesis by (simp add: round32_def u round_even_def Let_def)
  qed
  have r35: "round32 (483183661 / 134217728) = Finite (15099489 / 4194304)"
  proof -
    have "ulp32 (483183661 / 134217728) = pow2 (max (1) (- 126) - 23)"
      by (rule ulp32_eval) (simp_all add: pow2_def)
    then have u: "ulp32 (483183661 / 134217728) = 1 / 4194304" by (simp add: pow2_def)
    show ?thesis by (simp add: round32_def u round_even_def Let_def)
  qed
  have r36: "round32 (496605421 / 134217728) = Finite (15518919 / 4194304)"
  proof -
    have "ulp32 (496605421 / 134217728) = pow2 (max (1) (- 126) - 23)"
      by (rule ulp32_eval) (simp_all add: pow2_def)
    then have u: "ulp32 (496605421 / 134217728) = 1 / 4194304" by (simp add: pow2_def)
    show ?thesis by (simp add: round32_def u round_even_def Let_def)
  qed
  have r37: "round32 (510027181 / 134217728) = Finite (15938349 / 4194304)"
  proof -
    have "ulp32 (510027181 / 134217728) = pow2 (max (1) (- 126) - 23)"
      by (rule ulp32_eval) (simp_all add: pow2_def)
    then have u: "ulp32 (510027181 / 134217728) = 1 / 4194304" by (simp add: pow2_def)
    show ?thesis by (simp add: round32_def u round_even_def Let_def)
  qed
  have r38: "round32 (523448941 / 134217728) = Finite (16357779 / 4194304)"
  proof -
    have "ulp32 (523448941 / 134217728) = pow2 (max (1) (- 126) - 23)"
      by (rule ulp32_eval) (simp_all add: pow2_def)
    then have u: "ulp32 (523448941 / 134217728) = 1 / 4194304" by (simp add: pow2_def)
    show ?thesis by (simp add: round32_def u round_even_def Let_def)
  qed
  have r39: "round32 (536870701 / 134217728) = Finite (16777209 / 4194304)"
  proof -
    have "ulp32 (536870701 / 134217728) = pow2 (max (1) (- 126) - 23)"
      by (rule ulp32_eval) (simp_all add: pow2_def)
    then have u: "ulp32 (536870701 / 134217728) = 1 / 4194304" by (simp add: pow2_def)
    show ?thesis by (simp add: round32_def u round_even_def Let_def)
  qed
  have r40: "round32 (550292461 / 134217728) = Finite (537395 / 131072)"
  proof -
    have "ulp32 (550292461 / 134217728) = pow2 (max (2) (- 126) - 23)"
      by (rule ulp32_eval) (simp_all add: pow2_def)
    then have u: "ulp32 (550292461 / 134217728) = 1 / 2097152" by (simp add: pow2_def)
    show ?thesis by (simp add: round32_def u round_even_def Let_def)
  qed
  have r41: "round32 (563714253 / 134217728) = Finite (8808035 / 2097152)"
  proof -
    have "ulp32 (563714253 / 134217728) = pow2 (max (2) (- 126) - 23)"
      by (rule ulp32_eval) (simp_all add: pow2_def)
    then have u: "ulp32 (563714253 / 134217728) = 1 / 2097152" by (simp add: pow2_def)
    show ?thesis by (simp add: round32_def u round_even_def Let_def)
  qed
  have r42: "round32 (577136013 / 134217728) = Finite (4508875 / 1048576)"
  proof -
    have "ulp32 (577136013 / 134217728) = pow2 (max (2) (- 126) - 23)"
      by (rule ulp32_eval) (simp_all add: pow2_def)
    then have u: "ulp32 (577136013 / 134217728) = 1 / 2097152" by (simp add: pow2_def)
    show ?thesis by (simp add: round32_def u round_even_def Let_def)
  qed
  have r43: "round32 (590557773 / 134217728) = Finite (9227465 / 2097152)"
  proof -
    have "ulp32 (590557773 / 134217728) = pow2 (max (2) (- 126) - 23)"
      by (rule ulp32_eval) (simp_all add: pow2_def)
    then have u: "ulp32 (590557773 / 134217728) = 1 / 2097152" by (simp add: pow2_def)
    show ?thesis by (simp add: round32_def u round_even_def Let_def)
  qed
  have r44: "round32 (603979533 / 134217728) = Finite (2359295 / 524288)"
  proof -
    have "ulp32 (603979533 / 134217728) = pow2 (max (2) (- 126) - 23)"
      by (rule ulp32_eval) (simp_all add: pow2_def)
    then have u: "ulp32 (603979533 / 134217728) = 1 / 2097152" by (simp add: pow2_def)
    show ?thesis by (simp add: round32_def u round_even_def Let_def)
  qed
  have r45: "round32 (617401293 / 134217728) = Finite (9646895 / 2097152)"
  proof -
    have "ulp32 (617401293 / 134217728) = pow2 (max (2) (- 126) - 23)"
      by (rule ulp32_eval) (simp_all add: pow2_def)
    then have u: "ulp32 (617401293 / 134217728) = 1 / 2097152" by (simp add: pow2_def)
    show ?thesis by (simp add: round32_def u round_even_def Let_def)
  qed
  have r46: "round32 (630823053 / 134217728) = Finite (4928305 / 1048576)"
  proof -
    have "ulp32 (630823053 / 134217728) = pow2 (max (2) (- 126) - 23)"
      by (rule ulp32_eval) (simp_all add: pow2_def)
    then have u: "ulp32 (630823053 / 134217728) = 1 / 2097152" by (simp add: pow2_def)
    show ?thesis by (simp add: round32_def u round_even_def Let_def)
  qed
  have r47: "round32 (644244813 / 134217728) = Finite (10066325 / 2097152)"
  proof -
    have "ulp32 (644244813 / 134217728) = pow2 (max (2) (- 126) - 23)"
      by (rule ulp32_eval) (simp_all add: pow2_def)
    then have u: "ulp32 (644244813 / 134217728) = 1 / 2097152" by (simp add: pow2_def)
    show ?thesis by (simp add: round32_def u round_even_def Let_def)
  qed
  have r48: "round32 (657666573 / 134217728) = Finite (1284505 / 262144)"
  proof -
    have "ulp32 (657666573 / 134217728) = pow2 (max (2) (- 126) - 23)"
      by (rule ulp32_eval) (simp_all add: pow2_def)
    then have u: "ulp32 (657666573 / 134217728) = 1 / 2097152" by (simp add: pow2_def)
    show ?thesis by (simp add: round32_def u round_even_def Let_def)
  qed
  have r49: "round32 (671088333 / 134217728) = Finite (10485755 / 2097152)"
  proof -
    have "ulp32 (671088333 / 134217728) = pow2 (max (2) (- 126) - 23)"
      by (rule ulp32_eval) (simp_all add: pow2_def)
    then have u: "ulp32 (671088333 / 134217728) = 1 / 2097152" by (simp add: pow2_def)
    show ?thesis by (simp add: round32_def u round_even_def Let_def)
  qed
  have r50: "round32 (2097151 / 20971520) = Finite (6710883 / 67108864)"
  proof -
    have "ulp32 (2097151 / 20971520) = pow2 (max (- 4) (- 126) - 23)"
      by (rule ulp32_eval) (simp_all add: pow2_def)
    then have u: "ulp32 (2097151 / 20971520) = 1 / 134217728" by (simp add: pow2_def)
    show ?thesis by (simp add: round32_def u round_even_def Let_def)
  qed
  show ?thesis
    by (simp add: f32_mean_def f32_sum_def f32_of_int_50 numeral_eq_Suc r0 r1 r2 r3 r4 r5 r6
        r7 r8 r9 r10 r11 r12 r13 r14 r15 r16 r17 r18 r19 r20 r21 r22 r23 r24 r25 r26 r27 r28
        r29 r30 r31 r32 r33 r34 r35 r36 r37 r38 r39 r40 r41 r42 r43 r44 r45 r46 r47 r48 r49
        r50)
qed




section \<open>Facts about one call of the streaming loop\<close>

lemma interval_100: "interval = 100"
  by (simp add: interval_def SAMPLING_RATE_HZ_def)

lemmas loop_unfold = loop_def Let_def readAndSendSensorData_def blinkLED_def

lemma loop_connectionActive: "connectionActive (fst (loop inp st)) = (central inp \<noteq> None)"
  by (auto simp add: loop_unfold split: option.splits prod.splits)

lemma published_append: "published (xs @ ys) = published xs @ published ys"
  by (induction xs rule: published.induct) simp_all

lemma published_empty_iff: "published xs = [] \<longleftrightarrow> (\<forall>c v. WriteValue c v \<notin> set xs)"
  by (induction xs rule: published.induct) auto

section \<open>The radio stack is serviced once per call of the loop\<close>

lemma loop_polls_once:
  "count_list (snd (loop inp st)) BLE_poll = 1
   \<and> last (snd (loop inp st)) = BLE_poll
   \<and> sum_list (delays (snd (loop inp st))) \<le> 100"
  by (auto simp add: loop_unfold split: option.splits prod.splits)

lemma connected_loop_part_000_no_poll:
  "BLE_poll \<notin> set tr \<Longrightarrow> BLE_poll \<notin> set (trace_of (connected_loop_part_000 rounds tr))"
  by (induction rounds tr rule: connected_loop_part_000.induct)
     (auto simp add: connected_round_part_000_def blinkLED_part_000_def Let_def
           split: option.splits)

lemma loop_part_000_no_poll: "BLE_poll \<notin> set (trace_of (loop_part_000 c rounds))"
proof (cases c)
  case None
  then show ?thesis by (simp add: loop_part_000_def)
next
  case (Some addr)
  have "BLE_poll \<notin> set (trace_of (connected_loop_part_000 rounds
          [BLE_central, Serial_print ''Connected to: '', Central_address,
           Serial_println_String addr]))"
    by (rule connected_loop_part_000_no_poll) simp
  with Some show ?thesis
    by (auto simp add: loop_part_000_def split: outcome.splits)
qed

text \<open>
  Claim C1, as stated, fails on the older sketch: a call of its \<^verbatim>\<open>loop\<close> that serves a
  peer for one round and then sees it disconnect never calls \<^verbatim>\<open>BLE.poll\<close>.
\<close>

theorem poll_once_counterexample:
  "count_list
     (trace_of (loop_part_000 (Some ''c0:ff:ee:00:00:01'') [(True, Some (Finite 1, Finite 0, Finite 0)), (False, None)]))
     BLE_poll \<noteq> 1"
  by (simp add: loop_part_000_def connected_round_part_000_def blinkLED_part_000_def Let_def)

text \<open>
  Claim C1, amended. In the main sketch every call of \<^verbatim>\<open>loop\<close> calls \<^verbatim>\<open>BLE.poll\<close> exactly
  once, as its last action, whatever the connection state, the clock and the sensor
  answer, and the delays inside one call add up to at most 100 ms; so any sequence of
  calls polls as many times as there are calls. The older sketch never calls
  \<^verbatim>\<open>BLE.poll\<close> in its loop.
\<close>

theorem poll_once_per_iteration:
  "count_list (snd (loop inp st)) BLE_poll = 1
   \<and> last (snd (loop inp st)) = BLE_poll
   \<and> sum_list (delays (snd (loop inp st))) \<le> 100
   \<and> count_list (concat (iterations inps st)) BLE_poll = length inps
   \<and> BLE_poll \<notin> set (trace_of (loop_part_000 c rounds))"
proof -
  have 1: "count_list (snd (loop inp st)) BLE_poll = 1
   \<and> last (snd (loop inp st)) = BLE_poll
   \<and> sum_list (delays (snd (loop inp st))) \<le> 100"
    by (rule loop_polls_once)
  have 2: "count_list (concat (iterations inps st)) BLE_poll = length inps"
    by (induction inps arbitrary: st) (simp_all add: loop_polls_once)
  from 1 2 show ?thesis by (simp add: loop_part_000_no_poll)
qed

section \<open>The sampling interval\<close>

text \<open>
  The comparison \<^verbatim>\<open>currentMillis - previousMillis >= interval\<close> is made on 32-bit unsigned
  values. When the earlier reading is not after the later one, the comparison succeeds
  only if at least \<open>interval\<close> milliseconds lie between them, also across a wrap-around
  of \<^verbatim>\<open>millis()\<close>.
\<close>

lemma elapsed_word:
  assumes "tp \<le> tc"
    and "(word_of_int interval :: 32 word) \<le> word_of_nat tc - word_of_nat tp"
  shows "tp + nat interval \<le> tc"
proof -
  have d: "(word_of_nat tc - word_of_nat tp :: 32 word) = word_of_nat (tc - tp)"
    using assms(1) by (simp add: of_nat_diff)
  have "unat (100 :: 32 word) \<le> unat (word_of_nat (tc - tp) :: 32 word)"
    using assms(2) unfolding d interval_100 by (simp add: word_le_nat_alt)
  also have "\<dots> \<le> tc - tp"
    by (simp add: unat_of_nat)
  finally have "100 \<le> tc - tp" by simp
  then show ?thesis using assms(1) by (simp add: interval_100)
qed

text \<open>
  A call of the loop either leaves the timestamp alone and publishes nothing, or the
  interval test succeeded and the timestamp is the current clock reading.
\<close>

lemma loop_previousMillis:
  "previousMillis (fst (loop inp st)) = previousMillis st \<and> \<not> publishes (snd (loop inp st))
   \<or> previousMillis (fst (loop inp st)) = word_of_nat (now inp)
      \<and> word_of_int interval \<le> (word_of_nat (now inp) :: 32 word) - previousMillis st"
  by (auto simp add: loop_unfold publishes_def split: option.splits prod.splits)

lemma publish_times_after:
  "previousMillis st = word_of_nat tp \<Longrightarrow> t \<le> tp \<Longrightarrow> sorted (tp # map now inps) \<Longrightarrow>
   \<forall>p \<in> set (publish_times inps st). t + nat interval \<le> p"
proof (induction inps arbitrary: st tp)
  case Nil
  then show ?case by simp
next
  case (Cons inp inps)
  from loop_previousMillis [of inp st] show ?case
  proof
    assume a: "previousMillis (fst (loop inp st)) = previousMillis st
                 \<and> \<not> publishes (snd (loop inp st))"
    have s: "sorted (tp # map now inps)" using Cons.prems(3) by auto
    from Cons.IH [OF _ Cons.prems(2) s, of "fst (loop inp st)"] a Cons.prems(1)
    show ?thesis by simp
  next
    assume a: "previousMillis (fst (loop inp st)) = word_of_nat (now inp)
      \<and> word_of_int interval \<le> (word_of_nat (now inp) :: 32 word) - previousMillis st"
    have le: "tp \<le> now inp" using Cons.prems(3) by simp
    have e: "tp + nat interval \<le> now inp"
      using elapsed_word [OF le] a Cons.prems(1) by simp
    have t: "t \<le> now inp" using e Cons.prems(2) by simp
    have s: "sorted (now inp # map now inps)" using Cons.prems(3) by simp
    from Cons.IH [OF _ t s, of "fst (loop inp st)"] a e Cons.prems(2)
    show ?thesis by auto
  qed
qed

text \<open>
  Claim C3. Let the clock not run backwards over a sequence of calls of the loop of the
  main sketch, started in any state. Then any two calls that publish a sample are at
  least \<open>interval = 1000 / SAMPLING_RATE_HZ\<close> milliseconds apart, however fast the calls
  follow each other. Times are the clock readings of the calls.
\<close>

theorem publish_interval:
  "sorted (map now inps) \<Longrightarrow>
   sorted_wrt (\<lambda>t t'. t + nat interval \<le> t') (publish_times inps st)"
proof (induction inps arbitrary: st)
  case Nil
  then show ?case by simp
next
  case (Cons inp inps)
  have s: "sorted (map now inps)" using Cons.prems by simp
  note IH = Cons.IH [OF s, of "fst (loop inp st)"]
  show ?case
  proof (cases "publishes (snd (loop inp st))")
    case False
    with IH show ?thesis by simp
  next
    case True
    with loop_previousMillis [of inp st]
    have p: "previousMillis (fst (loop inp st)) = word_of_nat (now inp)" by auto
    have s': "sorted (now inp # map now inps)" using Cons.prems by simp
    from publish_times_after [OF p _ s', of "now inp"] IH True
    show ?thesis by simp
  qed
qed

theorem publish_interval_witness:
  "sorted (map now
     [\<lparr>central = Some ''c0:ff:ee:00:00:01'', now = 100, 
        acceleration = Some (Finite 1, Finite 0, Finite 0)\<rparr>,
      \<lparr>central = Some ''c0:ff:ee:00:00:01'', now = 150, 
        acceleration = Some (Finite 1, Finite 0, Finite 0)\<rparr>,
      \<lparr>central = Some ''c0:ff:ee:00:00:01'', now = 199, 
        acceleration = Some (Finite 1, Finite 0, Finite 0)\<rparr>,
      \<lparr>central = Some ''c0:ff:ee:00:00:01'', now = 200, 
        acceleration = Some (Finite 1, Finite 0, Finite 0)\<rparr>])
   \<and> publish_times
       [\<lparr>central = Some ''c0:ff:ee:00:00:01'', now = 100, 
        acceleration = Some (Finite 1, Finite 0, Finite 0)\<rparr>,
        \<lparr>central = Some ''c0:ff:ee:00:00:01'', now = 150, 
        acceleration = Some (Finite 1, Finite 0, Finite 0)\<rparr>,
        \<lparr>central = Some ''c0:ff:ee:00:00:01'', now = 199, 
        acceleration = Some (Finite 1, Finite 0, Finite 0)\<rparr>,
        \<lparr>central = Some ''c0:ff:ee:00:00:01'', now = 200, 
        acceleration = Some (Finite 1, Finite 0, Finite 0)\<rparr>]
       initial_state = [100, 200]
   \<and> sorted_wrt (\<lambda>t t'. t + nat interval \<le> t')
       (publish_times
         [\<lparr>central = Some ''c0:ff:ee:00:00:01'', now = 100, 
        acceleration = Some (Finite 1, Finite 0, Finite 0)\<rparr>,
          \<lparr>central = Some ''c0:ff:ee:00:00:01'', now = 150, 
        acceleration = Some (Finite 1, Finite 0, Finite 0)\<rparr>,
          \<lparr>central = Some ''c0:ff:ee:00:00:01'', now = 199, 
        acceleration = Some (Finite 1, Finite 0, Finite 0)\<rparr>,
          \<lparr>central = Some ''c0:ff:ee:00:00:01'', now = 200, 
        acceleration = Some (Finite 1, Finite 0, Finite 0)\<rparr>]
         initial_state)"
proof -
  have s: "sorted (map now
     [\<lparr>central = Some ''c0:ff:ee:00:00:01'', now = 100, 
        acceleration = Some (Finite 1, Finite 0, Finite 0)\<rparr>,
      \<lparr>central = Some ''c0:ff:ee:00:00:01'', now = 150, 
        acceleration = Some (Finite 1, Finite 0, Finite 0)\<rparr>,
      \<lparr>central = Some ''c0:ff:ee:00:00:01'', now = 199, 
        acceleration = Some (Finite 1, Finite 0, Finite 0)\<rparr>,
      \<lparr>central = Some ''c0:ff:ee:00:00:01'', now = 200, 
        acceleration = Some (Finite 1, Finite 0, Finite 0)\<rparr>])"
    by simp
  have p: "publish_times
       [\<lparr>central = Some ''c0:ff:ee:00:00:01'', now = 100, 
        acceleration = Some (Finite 1, Finite 0, Finite 0)\<rparr>,
        \<lparr>central = Some ''c0:ff:ee:00:00:01'', now = 150, 
        acceleration = Some (Finite 1, Finite 0, Finite 0)\<rparr>,
        \<lparr>central = Some ''c0:ff:ee:00:00:01'', now = 199, 
        acceleration = Some (Finite 1, Finite 0, Finite 0)\<rparr>,
        \<lparr>central = Some ''c0:ff:ee:00:00:01'', now = 200, 
        acceleration = Some (Finite 1, Finite 0, Finite 0)\<rparr>]
       initial_state = [100, 200]"
    by (simp add: loop_unfold publishes_def initial_state_def interval_100)
  from publish_interval [OF s, of initial_state] s p show ?thesis by simp
qed

text \<open>
  The older sketch has no timestamp. Every round of its connected loop ends with
  \<^verbatim>\<open>delay(1000)\<close>, after the 100 ms blink that follows a publish, so the delays between
  two consecutive publish events of one call of its \<^verbatim>\<open>loop\<close> add up to at least 1100 ms.
\<close>

lemma connected_loop_part_000_trace:
  "trace_of (connected_loop_part_000 rounds tr) = tr @ rounds_part_000 rounds"
  by (induction rounds tr rule: connected_loop_part_000.induct) simp_all

lemma round_gaps:
  "publish_gaps since (connected_round_part_000 acc @ es) =
     (case acc of
        None \<Rightarrow> publish_gaps (map_option (\<lambda>d. d + 1000) since) es
      | Some s \<Rightarrow> (case since of None \<Rightarrow> [] | Some d \<Rightarrow> [d]) @ publish_gaps (Some 1100) es)"
  by (auto simp add: connected_round_part_000_def blinkLED_part_000_def Let_def
      split: option.splits)

lemma rounds_gaps:
  "(\<forall>d. since = Some d \<longrightarrow> 1100 \<le> d) \<Longrightarrow> (\<forall>s. publish_gaps s es = []) \<Longrightarrow>
   \<forall>g \<in> set (publish_gaps since (rounds_part_000 rounds @ es)). 1100 \<le> g"
proof (induction rounds arbitrary: since)
  case Nil
  then show ?case by simp
next
  case (Cons r rounds)
  obtain is_connected acc where r: "r = (is_connected, acc)" by (cases r) auto
  show ?case
  proof (cases is_connected)
    case False
    with r Cons.prems show ?thesis by simp
  next
    case True
    show ?thesis
    proof (cases acc)
      case None
      have "\<forall>d. map_option (\<lambda>d. d + 1000) since = Some d \<longrightarrow> 1100 \<le> d"
        using Cons.prems(1) by auto
      from Cons.IH [OF this Cons.prems(2)] r True None show ?thesis
        by (simp add: round_gaps)
    next
      case (Some s)
      have "\<forall>d. Some (1100 :: nat) = Some d \<longrightarrow> 1100 \<le> d" by simp
      from Cons.IH [OF this Cons.prems(2)] r True Some Cons.prems(1) show ?thesis
        by (auto simp add: round_gaps split: option.splits)
    qed
  qed
qed

lemma publish_interval_part_000:
  "\<forall>g \<in> set (publish_gaps None (trace_of (loop_part_000 c rounds))). 1100 \<le> g"
proof (cases c)
  case None
  then show ?thesis by (simp add: loop_part_000_def)
next
  case (Some addr)
  let ?pre = "[BLE_central, Serial_print ''Connected to: '', Central_address,
               Serial_println_String addr]"
  have t: "trace_of (connected_loop_part_000 rounds ?pre) = ?pre @ rounds_part_000 rounds"
    by (rule connected_loop_part_000_trace)
  have a: "\<forall>g \<in> set (publish_gaps None (rounds_part_000 rounds @ [])). 1100 \<le> g"
    by (rule rounds_gaps) simp_all
  have b: "\<forall>g \<in> set (publish_gaps None (rounds_part_000 rounds
              @ [Serial_println ''Disconnected from BLE device.''])). 1100 \<le> g"
    by (rule rounds_gaps) simp_all
  show ?thesis
  proof (cases "connected_loop_part_000 rounds ?pre")
    case (Running tr)
    with t a Some show ?thesis by (simp add: loop_part_000_def)
  next
    case (Returned u tr)
    with t b Some show ?thesis by (simp add: loop_part_000_def)
  qed
qed

lemma publish_interval_part_000_example:
  "publish_gaps None
     (trace_of (loop_part_000 (Some ''c0:ff:ee:00:00:01'')
        [(True, Some (Finite 1, Finite 0, Finite 0)), (True, None), (True, Some (Finite 1, Finite 0, Finite 0)), (False, None)])) =
   [2100]"
  by (simp add: loop_part_000_def connected_round_part_000_def blinkLED_part_000_def Let_def)

section \<open>Connection transitions are edge-triggered\<close>

text \<open>
  The connected event (the log of the peer and the blue LED switched on) is performed
  by a call of the loop exactly when a central is present and the sketch was not
  connected; the disconnected event (the log and the blue LED switched off) exactly when
  no central is present and the sketch was connected. After the call the sketch is
  connected exactly when a central was present.
\<close>

lemma loop_connected_event:
  "count_list (snd (loop inp st)) (Serial_print ''Connected to: '') =
     (if central inp \<noteq> None \<and> \<not> connectionActive st then 1 else 0)
   \<and> count_list (snd (loop inp st)) Central_address =
     (if central inp \<noteq> None \<and> \<not> connectionActive st then 1 else 0)
   \<and> count_list (snd (loop inp st)) (DigitalWrite LED_BLUE LOW) =
     (if central inp \<noteq> None \<and> \<not> connectionActive st then 1 else 0)"
  by (auto simp add: loop_unfold split: option.splits prod.splits)

lemma loop_disconnected_event:
  "count_list (snd (loop inp st)) (Serial_println ''Disconnected from BLE device.'') =
     (if central inp = None \<and> connectionActive st then 1 else 0)
   \<and> count_list (snd (loop inp st)) (DigitalWrite LED_BLUE HIGH) =
     (if central inp = None \<and> connectionActive st then 1 else 0)"
  by (auto simp add: loop_unfold split: option.splits prod.splits)

text \<open>
  Over any sequence of calls, from any state, each part of the connected event is
  performed once per change from disconnected to connected of the sequence of polls,
  and each part of the disconnected event once per change from connected to
  disconnected.
\<close>

lemma connected_events_are_rising_edges:
  "count_list (concat (iterations inps st)) (Serial_print ''Connected to: '') =
     rising_edges (connectionActive st) (map (\<lambda>inp. central inp \<noteq> None) inps)
   \<and> count_list (concat (iterations inps st)) Central_address =
     rising_edges (connectionActive st) (map (\<lambda>inp. central inp \<noteq> None) inps)
   \<and> count_list (concat (iterations inps st)) (DigitalWrite LED_BLUE LOW) =
     rising_edges (connectionActive st) (map (\<lambda>inp. central inp \<noteq> None) inps)"
  by (induction inps arbitrary: st)
     (simp_all add: loop_connected_event loop_connectionActive)

lemma disconnected_events_are_falling_edges:
  "count_list (concat (iterations inps st)) (Serial_println ''Disconnected from BLE device.'') =
     falling_edges (connectionActive st) (map (\<lambda>inp. central inp \<noteq> None) inps)
   \<and> count_list (concat (iterations inps st)) (DigitalWrite LED_BLUE HIGH) =
     falling_edges (connectionActive st) (map (\<lambda>inp. central inp \<noteq> None) inps)"
  by (induction inps arbitrary: st)
     (simp_all add: loop_disconnected_event loop_connectionActive)

text \<open>
  Claim C4. In the main sketch the transitions are edge-triggered. For every sequence of
  calls of the loop, from every state and with any clock readings, sensor answers and
  peer addresses, the number of connected events (each of its parts counted: the log
  line, the read of the peer's address, the blue LED switched on) is the number of
  changes from disconnected to connected in the sequence of polls, and the number of
  disconnected events (the log line, the blue LED switched off) is the number of changes
  from connected to disconnected: nothing is repeated while the state persists. In
  particular five calls that see no central, no central, a central, a central, no
  central, started disconnected, perform each event once.
\<close>

theorem edge_triggered_transitions:
  "(let tr = concat (iterations inps st);
        levels = map (\<lambda>inp. central inp \<noteq> None) inps
    in count_list tr (Serial_print ''Connected to: '') = rising_edges (connectionActive st) levels
       \<and> count_list tr Central_address = rising_edges (connectionActive st) levels
       \<and> count_list tr (DigitalWrite LED_BLUE LOW) = rising_edges (connectionActive st) levels
       \<and> count_list tr (Serial_println ''Disconnected from BLE device.'') =
           falling_edges (connectionActive st) levels
       \<and> count_list tr (DigitalWrite LED_BLUE HIGH) = falling_edges (connectionActive st) levels)
   \<and> (let inps5 = [\<lparr>central = None, now = t1, acceleration = a1\<rparr>,
                    \<lparr>central = None, now = t2, acceleration = a2\<rparr>,
                    \<lparr>central = Some p3, now = t3, acceleration = a3\<rparr>,
                    \<lparr>central = Some p4, now = t4, acceleration = a4\<rparr>,
                    \<lparr>central = None, now = t5, acceleration = a5\<rparr>];
            tr5 = concat (iterations inps5 (st\<lparr>connectionActive := False\<rparr>))
        in count_list tr5 (Serial_print ''Connected to: '') = 1
           \<and> count_list tr5 Central_address = 1
           \<and> count_list tr5 (DigitalWrite LED_BLUE LOW) = 1
           \<and> count_list tr5 (Serial_println ''Disconnected from BLE device.'') = 1
           \<and> count_list tr5 (DigitalWrite LED_BLUE HIGH) = 1)"
proof -
  have general: "count_list (concat (iterations is s)) (Serial_print ''Connected to: '') =
       rising_edges (connectionActive s) (map (\<lambda>inp. central inp \<noteq> None) is)
     \<and> count_list (concat (iterations is s)) Central_address =
       rising_edges (connectionActive s) (map (\<lambda>inp. central inp \<noteq> None) is)
     \<and> count_list (concat (iterations is s)) (DigitalWrite LED_BLUE LOW) =
       rising_edges (connectionActive s) (map (\<lambda>inp. central inp \<noteq> None) is)
     \<and> count_list (concat (iterations is s)) (Serial_println ''Disconnected from BLE device.'') =
       falling_edges (connectionActive s) (map (\<lambda>inp. central inp \<noteq> None) is)
     \<and> count_list (concat (iterations is s)) (DigitalWrite LED_BLUE HIGH) =
       falling_edges (connectionActive s) (map (\<lambda>inp. central inp \<noteq> None) is)"
    for "is" s
    using connected_events_are_rising_edges [of "is" s]
      disconnected_events_are_falling_edges [of "is" s]
    by simp
  have five: "rising_edges False [False, False, True, True, False] = 1
     \<and> falling_edges False [False, False, True, True, False] = 1"
    by simp
  show ?thesis
    unfolding Let_def
    using general [of inps st]
      general [of "[\<lparr>central = None, now = t1, acceleration = a1\<rparr>,
                    \<lparr>central = None, now = t2, acceleration = a2\<rparr>,
                    \<lparr>central = Some p3, now = t3, acceleration = a3\<rparr>,
                    \<lparr>central = Some p4, now = t4, acceleration = a4\<rparr>,
                    \<lparr>central = None, now = t5, acceleration = a5\<rparr>]"
                  "st\<lparr>connectionActive := False\<rparr>"] five
    by simp
qed

text \<open>
  A sequence in which the connection persists and is lost twice: none, a central three
  times, none twice, a central, none. Two connected events and two disconnected events.
\<close>

lemma edge_triggered_example:
  "rising_edges False [False, True, True, True, False, False, True, False] = 2
   \<and> falling_edges False [False, True, True, True, False, False, True, False] = 2"
  by simp

text \<open>
  The older sketch logs the same two lines once each when its \<^verbatim>\<open>loop\<close> is called without
  a central twice and then with a central that stays for one round; it has no
  connection indicator.
\<close>

lemma edge_triggered_part_000:
  "(let tr = trace_of (loop_part_000 None rounds1) @ trace_of (loop_part_000 None rounds2)
             @ trace_of (loop_part_000 (Some p3) [(True, a4), (False, a5)])
    in count_list tr (Serial_print ''Connected to: '') = 1
       \<and> count_list tr (Serial_println ''Disconnected from BLE device.'') = 1
       \<and> count_list tr (DigitalWrite LED_BLUE LOW) = 0)"
  by (auto simp add: loop_part_000_def connected_round_part_000_def blinkLED_part_000_def Let_def
      split: option.splits)

section \<open>Nothing is published while disconnected\<close>

text \<open>
  Claim C5. A call of the loop of the main sketch that leaves the sketch disconnected
  writes no attribute and does not touch the sensor, whatever the clock reading, the
  timestamp and the sensor's answer; its only delay is the idle delay of 100 ms.
\<close>

theorem no_publish_while_disconnected:
  assumes "\<not> connectionActive (fst (loop inp st))"
  shows "published (snd (loop inp st)) = []
       \<and> delays (snd (loop inp st)) = [100]
       \<and> IMU_accelerationAvailable \<notin> set (snd (loop inp st))
       \<and> IMU_readAcceleration \<notin> set (snd (loop inp st))"
  using assms by (auto simp add: loop_unfold split: option.splits prod.splits if_splits)

theorem no_publish_while_disconnected_witness:
  "\<not> connectionActive
       (fst (loop \<lparr>central = None, now = 5000,
                   acceleration = Some (Finite 1, Finite 0, Finite 0)\<rparr>
                  (initial_state\<lparr>connectionActive := True\<rparr>)))
   \<and> snd (loop \<lparr>central = None, now = 5000,
                   acceleration = Some (Finite 1, Finite 0, Finite 0)\<rparr>
                (initial_state\<lparr>connectionActive := True\<rparr>)) =
       [BLE_central, Serial_println ''Disconnected from BLE device.'', DigitalWrite LED_BLUE HIGH,
        Delay 100, BLE_poll]
   \<and> published (snd (loop \<lparr>central = None, now = 5000,
                   acceleration = Some (Finite 1, Finite 0, Finite 0)\<rparr>
                           (initial_state\<lparr>connectionActive := True\<rparr>))) = []"
proof -
  have h: "\<not> connectionActive
       (fst (loop \<lparr>central = None, now = 5000,
                   acceleration = Some (Finite 1, Finite 0, Finite 0)\<rparr>
                  (initial_state\<lparr>connectionActive := True\<rparr>)))"
    by (simp add: loop_connectionActive)
  have t: "snd (loop \<lparr>central = None, now = 5000,
                   acceleration = Some (Finite 1, Finite 0, Finite 0)\<rparr>
                (initial_state\<lparr>connectionActive := True\<rparr>)) =
       [BLE_central, Serial_println ''Disconnected from BLE device.'', DigitalWrite LED_BLUE HIGH,
        Delay 100, BLE_poll]"
    by (simp add: loop_unfold initial_state_def)
  from no_publish_while_disconnected [OF h] h t show ?thesis by blast
qed

section \<open>The published values\<close>

lemma f32_nonneg_class:
  "f32_le (Finite 0) v \<longleftrightarrow> (case v of Finite a \<Rightarrow> 0 \<le> a | PInf \<Rightarrow> True | MInf \<Rightarrow> False | NaN \<Rightarrow> False)"
  by (cases v) simp_all

text \<open>Squares are not negative, and neither are sums and square roots of such numbers.\<close>

lemma f32_square_nonneg: "v \<noteq> NaN \<Longrightarrow> f32_le (Finite 0) (f32_mul v v)"
  by (cases v) (simp_all add: round32_nonneg)

lemma f32_add_nonneg:
  "f32_le (Finite 0) a \<Longrightarrow> f32_le (Finite 0) b \<Longrightarrow> f32_le (Finite 0) (f32_add a b)"
  by (cases a; cases b) (simp_all add: round32_nonneg)

lemma f32_sqrt_nonneg: "f32_le (Finite 0) a \<Longrightarrow> f32_le (Finite 0) (f32_sqrt a)"
  by (cases a) (simp_all add: round32_nonneg)

lemma f32_sub_finite_not_NaN: "is_finite a \<Longrightarrow> is_finite b \<Longrightarrow> f32_sub a b \<noteq> NaN"
  by (cases a; cases b) (simp_all add: f32_sub_def round32_not_NaN)

lemma norm3_nonneg:
  "x \<noteq> NaN \<Longrightarrow> y \<noteq> NaN \<Longrightarrow> z \<noteq> NaN \<Longrightarrow> f32_le (Finite 0) (norm3 x y z)"
  unfolding norm3_def
  by (intro f32_sqrt_nonneg f32_add_nonneg f32_square_nonneg)

lemma norm3_zero: "norm3 (Finite 0) (Finite 0) (Finite 0) = Finite 0"
  by (simp add: norm3_def round32_0)

lemma published_readAndSendSensorData:
  "published (readAndSendSensorData (Some (x, y, z)) st) =
     [(vibrationX, f32_sub x (offsetX st)), (vibrationY, f32_sub y (offsetY st)),
      (vibrationZ, f32_sub z (offsetZ st)),
      (vibrationMag, norm3 (f32_sub x (offsetX st)) (f32_sub y (offsetY st))
                           (f32_sub z (offsetZ st)))]"
  by (simp add: readAndSendSensorData_def blinkLED_def norm3_def Let_def)

text \<open>
  Claim C6. When a sample is available, \<^verbatim>\<open>readAndSendSensorData\<close> writes, in the order X,
  Y, Z, magnitude, the raw sample minus the offsets and the square root of the sum of
  the squares of these three differences, every operation being that of \<^verbatim>\<open>float\<close>. When
  the sample and the offsets are finite (the sensor delivers finite values), the
  magnitude is not negative (and not NaN). When the offsets are finite, a raw sample
  equal to the offsets is published as (0, 0, 0) with magnitude 0, exactly.
\<close>

theorem published_values:
  "published (readAndSendSensorData (Some (x, y, z)) st) =
     [(vibrationX, f32_sub x (offsetX st)), (vibrationY, f32_sub y (offsetY st)),
      (vibrationZ, f32_sub z (offsetZ st)),
      (vibrationMag, norm3 (f32_sub x (offsetX st)) (f32_sub y (offsetY st))
                           (f32_sub z (offsetZ st)))]
   \<and> (is_finite x \<and> is_finite y \<and> is_finite z
        \<and> is_finite (offsetX st) \<and> is_finite (offsetY st) \<and> is_finite (offsetZ st) \<longrightarrow>
      f32_le (Finite 0)
        (norm3 (f32_sub x (offsetX st)) (f32_sub y (offsetY st)) (f32_sub z (offsetZ st))))
   \<and> (is_finite (offsetX st) \<and> is_finite (offsetY st) \<and> is_finite (offsetZ st) \<longrightarrow>
      published (readAndSendSensorData (Some (offsetX st, offsetY st, offsetZ st)) st) =
        [(vibrationX, Finite 0), (vibrationY, Finite 0), (vibrationZ, Finite 0),
         (vibrationMag, Finite 0)])"
proof -
  have 2: "f32_le (Finite 0)
        (norm3 (f32_sub x (offsetX st)) (f32_sub y (offsetY st)) (f32_sub z (offsetZ st)))"
    if "is_finite x" "is_finite y" "is_finite z"
      "is_finite (offsetX st)" "is_finite (offsetY st)" "is_finite (offsetZ st)"
    using that by (intro norm3_nonneg f32_sub_finite_not_NaN)
  have 3: "published (readAndSendSensorData (Some (offsetX st, offsetY st, offsetZ st)) st) =
        [(vibrationX, Finite 0), (vibrationY, Finite 0), (vibrationZ, Finite 0),
         (vibrationMag, Finite 0)]"
    if "is_finite (offsetX st)" "is_finite (offsetY st)" "is_finite (offsetZ st)"
  proof -
    from that obtain a b c where
      o: "offsetX st = Finite a" "offsetY st = Finite b" "offsetZ st = Finite c"
      by (cases "offsetX st"; cases "offsetY st"; cases "offsetZ st") simp_all
    show ?thesis
      by (simp add: published_readAndSendSensorData o f32_sub_self norm3_zero)
  qed
  show ?thesis
  proof (intro conjI impI)
    show "published (readAndSendSensorData (Some (x, y, z)) st) =
       [(vibrationX, f32_sub x (offsetX st)), (vibrationY, f32_sub y (offsetY st)),
        (vibrationZ, f32_sub z (offsetZ st)),
        (vibrationMag, norm3 (f32_sub x (offsetX st)) (f32_sub y (offsetY st))
                             (f32_sub z (offsetZ st)))]"
      by (rule published_readAndSendSensorData)
  next
    assume "is_finite x \<and> is_finite y \<and> is_finite z
        \<and> is_finite (offsetX st) \<and> is_finite (offsetY st) \<and> is_finite (offsetZ st)"
    then show "f32_le (Finite 0)
        (norm3 (f32_sub x (offsetX st)) (f32_sub y (offsetY st)) (f32_sub z (offsetZ st)))"
      using 2 by blast
  next
    assume "is_finite (offsetX st) \<and> is_finite (offsetY st) \<and> is_finite (offsetZ st)"
    then show "published (readAndSendSensorData (Some (offsetX st, offsetY st, offsetZ st)) st) =
        [(vibrationX, Finite 0), (vibrationY, Finite 0), (vibrationZ, Finite 0),
         (vibrationMag, Finite 0)]"
      using 3 by blast
  qed
qed

text \<open>
  The offsets (1/50 rounded, 0, -1) that the calibration computes from one sample
  (1, 0, 0) and 49 samples (0, 0, 0): a raw sample equal to them is published as zeros,
  and the raw sample (1/50 rounded, 1, -1) has magnitude 1.
\<close>

theorem published_values_witness:
  "is_finite (offsetX (initial_state\<lparr>offsetX := Finite (5368709 / 268435456),
                                      offsetZ := Finite (- 1)\<rparr>))
   \<and> published (readAndSendSensorData
                  (Some (Finite (5368709 / 268435456), Finite 0, Finite (- 1)))
                  (initial_state\<lparr>offsetX := Finite (5368709 / 268435456),
                                 offsetZ := Finite (- 1)\<rparr>)) =
       [(vibrationX, Finite 0), (vibrationY, Finite 0), (vibrationZ, Finite 0),
        (vibrationMag, Finite 0)]
   \<and> published (readAndSendSensorData
                  (Some (Finite (5368709 / 268435456), Finite 1, Finite (- 1)))
                  (initial_state\<lparr>offsetX := Finite (5368709 / 268435456),
                                 offsetZ := Finite (- 1)\<rparr>)) =
       [(vibrationX, Finite 0), (vibrationY, Finite 1), (vibrationZ, Finite 0),
        (vibrationMag, Finite 1)]
   \<and> f32_le (Finite 0) (Finite 1)"
proof -
  let ?st = "initial_state\<lparr>offsetX := Finite (5368709 / 268435456), offsetZ := Finite (- 1)\<rparr>"
  have o: "offsetX ?st = Finite (5368709 / 268435456)" "offsetY ?st = Finite 0"
    "offsetZ ?st = Finite (- 1)"
    by (simp_all add: initial_state_def)
  have n: "norm3 (Finite 0) (Finite 1) (Finite 0) = Finite 1"
    by (simp add: norm3_def round32_0 round32_1)
  have s: "f32_sub (Finite 1) (Finite 0) = Finite 1"
    by (simp add: f32_sub_def round32_1)
  from published_values [of "Finite (5368709 / 268435456)" "Finite 1" "Finite (- 1)" ?st]
  show ?thesis
    by (simp add: o f32_sub_self n s)
qed

text \<open>
  The scenario of the specification in single precision: the raw sample (1.02, 0.01,
  0.98) and the offsets (0.02, 0.01, -0.02), each the nearest \<^verbatim>\<open>float\<close>, are published
  as exactly (1, 0, 1), with the magnitude \<open>sqrt 2\<close> rounded.
\<close>

lemma end_to_end_scenario:
  "published (readAndSendSensorData
               (Some (Finite (2139095 / 2097152), Finite (5368709 / 536870912),
                      Finite (2055209 / 2097152)))
               (st\<lparr>offsetX := Finite (5368709 / 268435456),
                   offsetY := Finite (5368709 / 536870912),
                   offsetZ := Finite (- (5368709 / 268435456))\<rparr>)) =
     [(vibrationX, Finite 1), (vibrationY, Finite 0), (vibrationZ, Finite 1),
      (vibrationMag, round32 (sqrt 2))]"
proof -
  have x: "round32 (268435451 / 268435456) = Finite 1"
  proof -
    have "ulp32 (268435451 / 268435456) = pow2 (max (- 1) (- 126) - 23)"
      by (rule ulp32_eval) (simp_all add: pow2_def)
    then have u: "ulp32 (268435451 / 268435456) = 1 / 16777216"
      by (simp add: pow2_def)
    show ?thesis by (simp add: round32_def u round_even_def Let_def)
  qed
  have z: "round32 (268435461 / 268435456) = Finite 1"
  proof -
    have "ulp32 (268435461 / 268435456) = pow2 (max 0 (- 126) - 23)"
      by (rule ulp32_eval) (simp_all add: pow2_def)
    then have u: "ulp32 (268435461 / 268435456) = 1 / 8388608"
      by (simp add: pow2_def)
    show ?thesis by (simp add: round32_def u round_even_def Let_def)
  qed
  have two: "round32 2 = Finite 2"
  proof -
    have "ulp32 2 = pow2 (max 1 (- 126) - 23)"
      by (rule ulp32_eval) (simp_all add: pow2_def)
    then have u: "ulp32 2 = 1 / 4194304" by (simp add: pow2_def)
    show ?thesis by (simp add: round32_def u round_even_def Let_def)
  qed
  show ?thesis
    using x z
    by (simp add: published_readAndSendSensorData f32_sub_def norm3_def round32_0 round32_1 two)
qed

text \<open>
  The older sketch has no offsets: it subtracts the constant 1 from the X axis and
  publishes the magnitude of the result.
\<close>

lemma published_values_part_000:
  "published (connected_round_part_000 (Some (x, y, z))) =
     [(vibrationX, f32_sub x (f32_of_int 1)), (vibrationY, y), (vibrationZ, z),
      (vibrationMag, norm3 (f32_sub x (f32_of_int 1)) y z)]"
  by (simp add: connected_round_part_000_def blinkLED_part_000_def norm3_def Let_def)

section \<open>Delays inside the loop\<close>

text \<open>
  Claim C7, as stated, fails on the older sketch: while a peer is connected, one round of
  its loop without a sample sleeps 1000 ms, ten times the sampling interval of 100 ms.
\<close>

theorem short_delays_counterexample:
  "\<not> Max (set (delays
        (trace_of (loop_part_000 (Some ''c0:ff:ee:00:00:01'') [(True, None), (False, None)]))))
      \<le> 100"
  by (simp add: loop_part_000_def connected_round_part_000_def)

text \<open>
  Claim C7, amended. In the main sketch the delays of one call of the loop are: none
  when connected and nothing is published, the 10 ms blink when a sample is published,
  the 100 ms idle delay when disconnected. In the older sketch every round of the loop
  that serves a connected peer sleeps 1000 ms, after the 100 ms blink when a sample is
  published.
\<close>

theorem delays_in_loop:
  "delays (snd (loop inp st)) =
     (if connectionActive (fst (loop inp st))
      then (if publishes (snd (loop inp st)) then [10] else [])
      else [100])
   \<and> delays (connected_round_part_000 acc) =
     (case acc of None \<Rightarrow> [1000] | Some s \<Rightarrow> [100, 1000])"
proof -
  have "delays (snd (loop inp st)) =
     (if connectionActive (fst (loop inp st))
      then (if publishes (snd (loop inp st)) then [10] else [])
      else [100])"
    by (auto simp add: loop_unfold publishes_def split: option.splits prod.splits)
  moreover have "delays (connected_round_part_000 acc) =
     (case acc of None \<Rightarrow> [1000] | Some s \<Rightarrow> [100, 1000])"
    by (auto simp add: connected_round_part_000_def blinkLED_part_000_def Let_def
        split: option.splits)
  ultimately show ?thesis by simp
qed

section \<open>Traces of the bootstrap\<close>

lemma showError_loop_running:
  "showError_loop n tr =
     Running (tr @ concat (replicate n
       [DigitalWrite LED_BLUE LOW, Delay 300, DigitalWrite LED_BLUE HIGH, Delay 300]))"
  by (induction n arbitrary: tr) simp_all

text \<open>\<^verbatim>\<open>showError\<close> is still running after any number of rounds.\<close>

lemma showError_running: "showError fuel tr = Running (tr @ error_pattern fuel)"
  by (simp add: showError_def showError_loop_running error_pattern_def)



text \<open>What the calibration loop adds to the trace.\<close>

lemma calibration_loop_trace:
  "\<exists>ext. trace_of (calibration_loop ps sumX sumY sumZ samples tr) = tr @ ext
     \<and> set ext \<subseteq> {IMU_accelerationAvailable, IMU_readAcceleration, DigitalWrite LED_GREEN LOW,
                    Delay 10, DigitalWrite LED_GREEN HIGH, Delay 20}"
proof (induction ps arbitrary: sumX sumY sumZ samples tr)
  case Nil
  show ?case by simp
next
  case (Cons p ps)
  show ?case
  proof (cases "samples < CALIBRATION_SAMPLES")
    case False
    then show ?thesis by simp
  next
    case True
    show ?thesis
    proof (cases p)
      case None
      from Cons.IH [of sumX sumY sumZ samples "tr @ [IMU_accelerationAvailable]"]
      obtain ext where
        "trace_of (calibration_loop ps sumX sumY sumZ samples (tr @ [IMU_accelerationAvailable])) =
           (tr @ [IMU_accelerationAvailable]) @ ext"
        and "set ext \<subseteq> {IMU_accelerationAvailable, IMU_readAcceleration,
                         DigitalWrite LED_GREEN LOW, Delay 10, DigitalWrite LED_GREEN HIGH, Delay 20}"
        by blast
      with None True show ?thesis
        by (intro exI [of _ "IMU_accelerationAvailable # ext"]) simp
    next
      case (Some s)
      obtain x y z where s: "s = (x, y, z)" by (cases s) auto
      let ?new = "[IMU_accelerationAvailable, IMU_readAcceleration]
              @ (if (samples + 1) mod 10 = 0 then blinkLED else []) @ [Delay 20]"
      from Cons.IH [of "f32_add sumX x" "f32_add sumY y" "f32_add sumZ z" "samples + 1"
          "tr @ ?new"]
      obtain ext where
        "trace_of (calibration_loop ps (f32_add sumX x) (f32_add sumY y) (f32_add sumZ z)
                     (samples + 1) (tr @ ?new)) = (tr @ ?new) @ ext"
        and "set ext \<subseteq> {IMU_accelerationAvailable, IMU_readAcceleration,
                         DigitalWrite LED_GREEN LOW, Delay 10, DigitalWrite LED_GREEN HIGH, Delay 20}"
        by blast
      with Some s True show ?thesis
        by (intro exI [of _ "?new @ ext"]) (auto simp add: blinkLED_def)
    qed
  qed
qed

text \<open>
  The calibration extends the trace by events that are no attribute write, no BLE call
  and no initialisation, and announces itself once.
\<close>

lemma calibrateAccelerometer_trace:
  "\<exists>ext. trace_of (calibrateAccelerometer polls st tr) = tr @ ext
     \<and> published ext = []
     \<and> BLE_poll \<notin> set ext \<and> BLE_central \<notin> set ext
     \<and> IMU_begin \<notin> set ext \<and> BLE_begin \<notin> set ext
     \<and> count_list ext (Serial_println ''Calibrating accelerometer...'') = 1"
proof -
  let ?tr0 = "tr @ [Serial_println ''Calibrating accelerometer...'', DigitalWrite LED_BLUE LOW]"
  from calibration_loop_trace [of polls "Finite 0" "Finite 0" "Finite 0" 0 ?tr0]
  obtain ext where e: "trace_of (calibration_loop polls (Finite 0) (Finite 0) (Finite 0) 0 ?tr0) = ?tr0 @ ext"
    and s: "set ext \<subseteq> {IMU_accelerationAvailable, IMU_readAcceleration,
                        DigitalWrite LED_GREEN LOW, Delay 10, DigitalWrite LED_GREEN HIGH, Delay 20}"
    by blast
  have c: "count_list ext (Serial_println ''Calibrating accelerometer...'') = 0"
    using s by (intro count_notin) auto
  have p: "published ext = []"
    using s by (auto simp add: published_empty_iff)
  have n: "BLE_poll \<notin> set ext" "BLE_central \<notin> set ext" "IMU_begin \<notin> set ext"
    "BLE_begin \<notin> set ext"
    using s by auto
  show ?thesis
  proof (cases "calibration_loop polls (Finite 0) (Finite 0) (Finite 0) 0 ?tr0")
    case (Running tr')
    with e c p n show ?thesis
      by (intro exI [of _ "[Serial_println ''Calibrating accelerometer...'',
                            DigitalWrite LED_BLUE LOW] @ ext"])
         (simp add: calibrateAccelerometer_def published_append)
  next
    case (Returned v tr')
    obtain sx sy sz where v: "v = (sx, sy, sz)" by (cases v) auto
    let ?st = "st\<lparr>offsetX := f32_div sx (f32_of_int CALIBRATION_SAMPLES),
                   offsetY := f32_div sy (f32_of_int CALIBRATION_SAMPLES),
                   offsetZ := f32_sub (f32_div sz (f32_of_int CALIBRATION_SAMPLES))
                                (Finite 1)\<rparr>"
    from Returned v e c p n show ?thesis
      by (intro exI [of _ "[Serial_println ''Calibrating accelerometer...'',
                            DigitalWrite LED_BLUE LOW] @ ext
             @ [Serial_println ''Calibration complete!'',
                Serial_print ''Offsets - X: '', Serial_print_float (offsetX ?st) 6,
                Serial_print '' Y: '', Serial_print_float (offsetY ?st) 6,
                Serial_print '' Z: '', Serial_println_float (offsetZ ?st) 6,
                DigitalWrite LED_BLUE HIGH]"])
         (simp add: calibrateAccelerometer_def Let_def published_append)
  qed
qed

lemma calibrateAccelerometer_returns:
  assumes "nat CALIBRATION_SAMPLES \<le> length (available polls)"
  shows "\<exists>st' tr'. calibrateAccelerometer polls st tr = Returned st' tr'"
  using calibrateAccelerometer_result [OF assms, of st tr] by blast



text \<open>A bootstrap that returns has passed both initialisations and the calibration.\<close>

lemma setup_returned:
  assumes "setup_wash_sense b fuel = Returned st tr"
  shows "imu_begin b \<and> ble_begin b
       \<and> (\<exists>tr1. calibrateAccelerometer (calibration_polls b) initial_state
                   [Serial_begin 115200,
                    PinMode_output LED_GREEN, PinMode_output LED_RED, PinMode_output LED_BLUE,
                    DigitalWrite LED_GREEN HIGH, DigitalWrite LED_RED HIGH,
                    DigitalWrite LED_BLUE HIGH,
                    IMU_begin, Serial_println ''IMU initialized.''] = Returned st tr1
             \<and> tr = tr1 @ [BLE_begin, Serial_println ''BLE initialized.'',
                           BLE_setLocalName ''Nano33BLE_Vibration'',
                           BLE_setAdvertisedService,
                           AddCharacteristic vibrationX, AddCharacteristic vibrationY,
                           AddCharacteristic vibrationZ, AddCharacteristic vibrationMag,
                           BLE_addService, BLE_advertise,
                           Serial_println ''BLE Advertising...'',
                           WriteValue vibrationX (Finite 0), WriteValue vibrationY (Finite 0),
                           WriteValue vibrationZ (Finite 0),
                           WriteValue vibrationMag (Finite 0)])"
  using assms
  by (auto simp add: setup_wash_sense_def showError_running Let_def
      split: if_splits outcome.splits)

lemma setup_returns:
  assumes "imu_begin b" and "ble_begin b"
    and "nat CALIBRATION_SAMPLES \<le> length (available (calibration_polls b))"
  shows "\<exists>st tr. setup_wash_sense b fuel = Returned st tr"
  using calibrateAccelerometer_returns [OF assms(3), of initial_state
      "[Serial_begin 115200,
        PinMode_output LED_GREEN, PinMode_output LED_RED, PinMode_output LED_BLUE,
        DigitalWrite LED_GREEN HIGH, DigitalWrite LED_RED HIGH, DigitalWrite LED_BLUE HIGH,
        IMU_begin, Serial_println ''IMU initialized.'']"] assms(1,2)
  by (auto simp add: setup_wash_sense_def Let_def)

section \<open>The offsets are computed once and never written again\<close>

lemma loop_offsets:
  "offsetX (fst (loop inp st)) = offsetX st \<and> offsetY (fst (loop inp st)) = offsetY st
   \<and> offsetZ (fst (loop inp st)) = offsetZ st"
  by (auto simp add: loop_unfold split: option.splits prod.splits)

lemma run_offsets:
  "offsetX (run inps st) = offsetX st \<and> offsetY (run inps st) = offsetY st
   \<and> offsetZ (run inps st) = offsetZ st"
  by (induction inps arbitrary: st) (simp_all add: loop_offsets)

text \<open>
  A call of the loop that publishes has read a sample and publishes it corrected by the
  offsets of the state it was called in.
\<close>

lemma loop_publishes_corrected:
  assumes "publishes (snd (loop inp st))"
  shows "\<exists>x y z. acceleration inp = Some (x, y, z)
           \<and> published (snd (loop inp st)) =
               [(vibrationX, f32_sub x (offsetX st)), (vibrationY, f32_sub y (offsetY st)),
                (vibrationZ, f32_sub z (offsetZ st)),
                (vibrationMag, norm3 (f32_sub x (offsetX st)) (f32_sub y (offsetY st))
                                     (f32_sub z (offsetZ st)))]"
  using assms
  by (auto simp add: loop_unfold publishes_def norm3_def split: option.splits prod.splits if_splits)

text \<open>What the bootstrap hands to the streaming loop, and how often it read the sensor.\<close>

lemma setup_offsets:
  assumes "setup_wash_sense b fuel = Returned st tr"
  shows "st = initial_state
                \<lparr>offsetX := f32_mean (map fst (accepted (calibration_polls b))),
                 offsetY := f32_mean (map (fst \<circ> snd) (accepted (calibration_polls b))),
                 offsetZ := f32_sub (f32_mean (map (snd \<circ> snd) (accepted (calibration_polls b))))
                              (Finite 1)\<rparr>
       \<and> count_list tr IMU_readAcceleration = nat CALIBRATION_SAMPLES
       \<and> count_list tr (Serial_println ''Calibrating accelerometer...'') = 1"
proof -
  let ?tr0 = "[Serial_begin 115200,
               PinMode_output LED_GREEN, PinMode_output LED_RED, PinMode_output LED_BLUE,
               DigitalWrite LED_GREEN HIGH, DigitalWrite LED_RED HIGH, DigitalWrite LED_BLUE HIGH,
               IMU_begin, Serial_println ''IMU initialized.'']"
  from setup_returned [OF assms] obtain tr1 where
    r: "calibrateAccelerometer (calibration_polls b) initial_state ?tr0 = Returned st tr1"
    and t: "tr = tr1 @ [BLE_begin, Serial_println ''BLE initialized.'',
                        BLE_setLocalName ''Nano33BLE_Vibration'',
                        BLE_setAdvertisedService,
                        AddCharacteristic vibrationX, AddCharacteristic vibrationY,
                        AddCharacteristic vibrationZ, AddCharacteristic vibrationMag,
                        BLE_addService, BLE_advertise,
                        Serial_println ''BLE Advertising...'',
                        WriteValue vibrationX (Finite 0), WriteValue vibrationY (Finite 0),
                        WriteValue vibrationZ (Finite 0), WriteValue vibrationMag (Finite 0)]"
    by blast
  have le: "nat CALIBRATION_SAMPLES \<le> length (available (calibration_polls b))"
    using r by (rule calibrateAccelerometer_needs_samples)
  from calibrateAccelerometer_result [OF le, of initial_state ?tr0] r
  have s: "st = initial_state
                \<lparr>offsetX := f32_mean (map fst (accepted (calibration_polls b))),
                 offsetY := f32_mean (map (fst \<circ> snd) (accepted (calibration_polls b))),
                 offsetZ := f32_sub (f32_mean (map (snd \<circ> snd) (accepted (calibration_polls b))))
                              (Finite 1)\<rparr>"
    and c: "count_list tr1 IMU_readAcceleration = nat CALIBRATION_SAMPLES"
    by auto
  from calibrateAccelerometer_trace [of "calibration_polls b" initial_state ?tr0] r
  obtain ext where e: "tr1 = ?tr0 @ ext"
    and a: "count_list ext (Serial_println ''Calibrating accelerometer...'') = 1"
    by auto
  have "count_list tr (Serial_println ''Calibrating accelerometer...'') = 1"
    unfolding t e using a by simp
  moreover have "count_list tr IMU_readAcceleration = nat CALIBRATION_SAMPLES"
    unfolding t using c by simp
  ultimately show ?thesis using s by simp
qed

text \<open>
  Claim C8. When the bootstrap of the main sketch returns, it has run the calibration
  exactly once (one announcement, \<open>CALIBRATION_SAMPLES\<close> reads of the sensor), and the
  offsets of the state it hands to the streaming loop are the values the calibration
  computed: the single-precision means of the accepted samples, with 1 subtracted on the
  Z axis. After any number of calls of the loop, with any inputs, the three offsets are
  still these values, and every later call that publishes uses them: it publishes its
  sample minus these offsets.
\<close>

theorem offsets_fixed_after_calibration:
  assumes "setup_wash_sense b fuel = Returned st tr"
  shows "offsetX st = f32_mean (map fst (accepted (calibration_polls b)))
       \<and> offsetY st = f32_mean (map (fst \<circ> snd) (accepted (calibration_polls b)))
       \<and> offsetZ st =
           f32_sub (f32_mean (map (snd \<circ> snd) (accepted (calibration_polls b)))) (Finite 1)
       \<and> count_list tr (Serial_println ''Calibrating accelerometer...'') = 1
       \<and> count_list tr IMU_readAcceleration = nat CALIBRATION_SAMPLES
       \<and> offsetX (run inps st) = offsetX st
       \<and> offsetY (run inps st) = offsetY st
       \<and> offsetZ (run inps st) = offsetZ st
       \<and> (publishes (snd (loop inp (run inps st))) \<longrightarrow>
           (\<exists>x y z. acceleration inp = Some (x, y, z)
              \<and> published (snd (loop inp (run inps st))) =
                  [(vibrationX, f32_sub x (offsetX st)), (vibrationY, f32_sub y (offsetY st)),
                   (vibrationZ, f32_sub z (offsetZ st)),
                   (vibrationMag, norm3 (f32_sub x (offsetX st)) (f32_sub y (offsetY st))
                                        (f32_sub z (offsetZ st)))]))"
proof -
  from setup_offsets [OF assms] have
    s: "st = initial_state
                \<lparr>offsetX := f32_mean (map fst (accepted (calibration_polls b))),
                 offsetY := f32_mean (map (fst \<circ> snd) (accepted (calibration_polls b))),
                 offsetZ := f32_sub (f32_mean (map (snd \<circ> snd) (accepted (calibration_polls b))))
                              (Finite 1)\<rparr>"
    and c: "count_list tr IMU_readAcceleration = nat CALIBRATION_SAMPLES"
      "count_list tr (Serial_println ''Calibrating accelerometer...'') = 1"
    by simp_all
  have o: "offsetX st = f32_mean (map fst (accepted (calibration_polls b)))"
    "offsetY st = f32_mean (map (fst \<circ> snd) (accepted (calibration_polls b)))"
    "offsetZ st =
       f32_sub (f32_mean (map (snd \<circ> snd) (accepted (calibration_polls b)))) (Finite 1)"
    by (subst s, simp)+
  have p: "\<exists>x y z. acceleration inp = Some (x, y, z)
              \<and> published (snd (loop inp (run inps st))) =
                  [(vibrationX, f32_sub x (offsetX st)), (vibrationY, f32_sub y (offsetY st)),
                   (vibrationZ, f32_sub z (offsetZ st)),
                   (vibrationMag, norm3 (f32_sub x (offsetX st)) (f32_sub y (offsetY st))
                                        (f32_sub z (offsetZ st)))]"
    if "publishes (snd (loop inp (run inps st)))"
    using loop_publishes_corrected [OF that] by (simp add: run_offsets)
  from o c p show ?thesis by (simp add: run_offsets)
qed

text \<open>
  With 50 samples (0, 0, 0) the bootstrap returns with the offsets (0, 0, -1); they are
  unchanged after a call of the loop that publishes the sample (1, 0, 0) as (1, 0, 1).
\<close>

theorem offsets_fixed_after_calibration_witness:
  "\<exists>st tr.
     setup_wash_sense
       \<lparr>imu_begin = True, ble_begin = True,
        calibration_polls = replicate 50 (Some (Finite 0, Finite 0, Finite 0))\<rparr> 0 = Returned st tr
     \<and> offsetX st = Finite 0 \<and> offsetY st = Finite 0 \<and> offsetZ st = Finite (- 1)
     \<and> count_list tr IMU_readAcceleration = 50
     \<and> offsetZ (run [\<lparr>central = Some ''c0:ff:ee:00:00:01'', now = 100,
                      acceleration = Some (Finite 1, Finite 0, Finite 0)\<rparr>] st) = Finite (- 1)"
proof -
  let ?b = "\<lparr>imu_begin = True, ble_begin = True,
        calibration_polls = replicate 50 (Some (Finite 0, Finite 0, Finite 0))\<rparr>"
  from setup_returns [of ?b 0]
  obtain st tr where r: "setup_wash_sense ?b 0 = Returned st tr"
    by (auto simp add: available_replicate CALIBRATION_SAMPLES_def)
  have a: "accepted (calibration_polls ?b) = replicate 50 (Finite 0, Finite 0, Finite 0)"
    by (simp add: accepted_def available_replicate CALIBRATION_SAMPLES_def)
  from offsets_fixed_after_calibration [OF r,
      of "[\<lparr>central = Some ''c0:ff:ee:00:00:01'', now = 100,
            acceleration = Some (Finite 1, Finite 0, Finite 0)\<rparr>]"]
  have "offsetX st = Finite 0 \<and> offsetY st = Finite 0 \<and> offsetZ st = Finite (- 1)
     \<and> count_list tr IMU_readAcceleration = 50
     \<and> offsetZ (run [\<lparr>central = Some ''c0:ff:ee:00:00:01'', now = 100,
                      acceleration = Some (Finite 1, Finite 0, Finite 0)\<rparr>] st) = Finite (- 1)"
    unfolding a
    by (simp add: f32_mean_zeros f32_zero_minus_one CALIBRATION_SAMPLES_def)
  with r show ?thesis by blast
qed

section \<open>A failed initialisation halts the device\<close>



text \<open>
  In the older sketch \<^verbatim>\<open>showError\<close> switches the red LED on and spins in an empty loop:
  it never returns either, and blinks nothing.
\<close>

lemma showError_part_000_running:
  "showError_part_000 fuel tr = Running (tr @ [DigitalWrite LED_RED LOW])"
proof -
  have "showError_loop_part_000 n tr' = Running tr'" for n and tr' :: "event list"
    by (induction n) simp_all
  then show ?thesis by (simp add: showError_part_000_def)
qed

lemma init_failure_halts_part_000:
  assumes "\<not> imu_begin_part_000 b \<or> \<not> ble_begin_part_000 b"
  shows "\<exists>tr. setup_part_000 b fuel = Running tr \<and> published tr = []"
proof (cases "wait_Serial_part_000 (serial_polls b) [Serial_begin 115200]")
  case (Running tr0)
  have "\<exists>ext. trace_of (wait_Serial_part_000 rs tr') = tr' @ ext \<and> published ext = []"
    for rs tr'
  proof (induction rs arbitrary: tr')
    case Nil
    show ?case by simp
  next
    case (Cons r rs)
    from Cons [of "tr' @ [Serial_wait]"] show ?case by auto
  qed
  from this [of "serial_polls b" "[Serial_begin 115200]"] Running
  show ?thesis by (auto simp add: setup_part_000_def published_append)
next
  case (Returned u tr0)
  have "\<exists>ext. trace_of (wait_Serial_part_000 rs tr') = tr' @ ext \<and> published ext = []"
    for rs tr'
  proof (induction rs arbitrary: tr')
    case Nil
    show ?case by simp
  next
    case (Cons r rs)
    from Cons [of "tr' @ [Serial_wait]"] show ?case by auto
  qed
  from this [of "serial_polls b" "[Serial_begin 115200]"] Returned
  have "published tr0 = []" by (auto simp add: published_append)
  with Returned assms show ?thesis
    by (auto simp add: setup_part_000_def showError_part_000_running Let_def published_append)
qed

section \<open>The initial attribute values\<close>

lemma readValue_append:
  "readValue (xs @ ys) c =
     (case readValue ys c of Some v \<Rightarrow> Some v | None \<Rightarrow> readValue xs c)"
  by (induction xs) (simp_all split: option.splits)

lemma readValue_not_published: "published ys = [] \<Longrightarrow> readValue ys c = None"
  by (induction ys rule: published.induct) simp_all

text \<open>
  Claim C10. When the bootstrap of the main sketch returns, its trace ends with the
  registration of the four attributes, of the service, the start of advertising, a log
  line and one write of 0 to each of the four attributes, in the order X, Y, Z,
  magnitude; nothing was written to an attribute before, and \<^verbatim>\<open>BLE.central()\<close> has not
  been asked for a peer yet. So each attribute reads 0 after the bootstrap, and still
  reads 0 after any calls of the loop that publish nothing.
\<close>

theorem initial_values_written:
  assumes "setup_wash_sense b fuel = Returned st tr"
  shows "(\<exists>pre. tr = pre @ [AddCharacteristic vibrationX, AddCharacteristic vibrationY,
                           AddCharacteristic vibrationZ, AddCharacteristic vibrationMag,
                           BLE_addService, BLE_advertise,
                           Serial_println ''BLE Advertising...'',
                           WriteValue vibrationX (Finite 0), WriteValue vibrationY (Finite 0),
                           WriteValue vibrationZ (Finite 0), WriteValue vibrationMag (Finite 0)]
               \<and> published pre = [])
       \<and> BLE_central \<notin> set tr
       \<and> readValue tr c = Some (Finite 0)
       \<and> (published (concat (iterations inps st)) = [] \<longrightarrow>
            readValue (tr @ concat (iterations inps st)) c = Some (Finite 0))"
proof -
  let ?tr0 = "[Serial_begin 115200,
               PinMode_output LED_GREEN, PinMode_output LED_RED, PinMode_output LED_BLUE,
               DigitalWrite LED_GREEN HIGH, DigitalWrite LED_RED HIGH, DigitalWrite LED_BLUE HIGH,
               IMU_begin, Serial_println ''IMU initialized.'']"
  let ?init = "[AddCharacteristic vibrationX, AddCharacteristic vibrationY,
                AddCharacteristic vibrationZ, AddCharacteristic vibrationMag,
                BLE_addService, BLE_advertise,
                Serial_println ''BLE Advertising...'',
                WriteValue vibrationX (Finite 0), WriteValue vibrationY (Finite 0),
                WriteValue vibrationZ (Finite 0), WriteValue vibrationMag (Finite 0)]"
  from setup_returned [OF assms] obtain tr1 where
    r: "calibrateAccelerometer (calibration_polls b) initial_state ?tr0 = Returned st tr1"
    and t: "tr = (tr1 @ [BLE_begin, Serial_println ''BLE initialized.'',
                         BLE_setLocalName ''Nano33BLE_Vibration'',
                         BLE_setAdvertisedService]) @ ?init"
    by auto
  from calibrateAccelerometer_trace [of "calibration_polls b" initial_state ?tr0] r
  obtain ext where e: "tr1 = ?tr0 @ ext" and p: "published ext = []"
    and n: "BLE_central \<notin> set ext"
    by auto
  have 1: "\<exists>pre. tr = pre @ ?init \<and> published pre = []"
    using t e p by (intro exI [of _ "tr1 @ [BLE_begin, Serial_println ''BLE initialized.'',
                         BLE_setLocalName ''Nano33BLE_Vibration'',
                         BLE_setAdvertisedService]"]) (simp add: published_append)
  have 2: "BLE_central \<notin> set tr"
    unfolding t e using n by simp
  have i: "readValue ?init c = Some (Finite 0)"
    by (cases c) simp_all
  have 3: "readValue tr c = Some (Finite 0)"
    unfolding t using i by (simp only: readValue_append [of _ ?init] option.case)
  have 4: "readValue (tr @ concat (iterations inps st)) c = Some (Finite 0)"
    if "published (concat (iterations inps st)) = []"
    using readValue_not_published [OF that, of c] 3
    by (simp only: readValue_append [of tr] option.case)
  from 1 2 3 4 show ?thesis by blast
qed

theorem initial_values_written_witness:
  "\<exists>st tr.
     setup_wash_sense
       \<lparr>imu_begin = True, ble_begin = True,
        calibration_polls = replicate 50 (Some (Finite 0, Finite 0, Finite 0))\<rparr> 0 = Returned st tr
     \<and> readValue tr vibrationMag = Some (Finite 0)
     \<and> readValue (tr @ concat (iterations
                               [\<lparr>central = None, now = 100, acceleration = Some (Finite 1, Finite 0, Finite 0)\<rparr>] st))
         vibrationX = Some (Finite 0)"
proof -
  from setup_returns [of "\<lparr>imu_begin = True, ble_begin = True,
        calibration_polls = replicate 50 (Some (Finite 0, Finite 0, Finite 0))\<rparr>" 0]
  obtain st tr where r: "setup_wash_sense
       \<lparr>imu_begin = True, ble_begin = True,
        calibration_polls = replicate 50 (Some (Finite 0, Finite 0, Finite 0))\<rparr> 0 = Returned st tr"
    by (auto simp add: available_replicate CALIBRATION_SAMPLES_def)
  have q: "published (concat (iterations
             [\<lparr>central = None, now = 100, acceleration = Some (Finite 1, Finite 0, Finite 0)\<rparr>] st)) = []"
    by (auto simp add: loop_unfold split: option.splits prod.splits)
  from initial_values_written [OF r, of vibrationMag]
  have a: "readValue tr vibrationMag = Some (Finite 0)" by blast
  from initial_values_written [OF r, of vibrationX
      "[\<lparr>central = None, now = 100, acceleration = Some (Finite 1, Finite 0, Finite 0)\<rparr>]"] q
  have b: "readValue (tr @ concat (iterations
                               [\<lparr>central = None, now = 100, acceleration = Some (Finite 1, Finite 0, Finite 0)\<rparr>] st))
         vibrationX = Some (Finite 0)" by blast
  from r a b show ?thesis by blast
qed

end
